theory Spec2Isabelle
  imports Main "HOL-Library.Char_ord" "HOL-Library.List_Lexorder" "HOL-Library.AList"
begin

section \<open>Strings and paths\<close>

subsection \<open>Splitting, joining and path normalisation (posixpath)\<close>

fun split_on :: "char \<Rightarrow> string \<Rightarrow> string list" where
  "split_on c [] = [[]]"
| "split_on c (x # xs) =
     (if x = c then [] # split_on c xs
      else (case split_on c xs of [] \<Rightarrow> [[x]] | w # ws \<Rightarrow> (x # w) # ws))"

fun join_with :: "string \<Rightarrow> string list \<Rightarrow> string" where
  "join_with s [] = []"
| "join_with s [x] = x"
| "join_with s (x # y # ys) = x @ s @ join_with s (y # ys)"

definition startswith :: "string \<Rightarrow> string \<Rightarrow> bool" where
  "startswith s p = (take (length p) s = p)"

definition endswith :: "string \<Rightarrow> string \<Rightarrow> bool" where
  "endswith s p = (length p \<le> length s \<and> drop (length s - length p) s = p)"

definition isabs :: "string \<Rightarrow> bool" where
  "isabs s = startswith s ''/''"

definition path_join :: "string \<Rightarrow> string \<Rightarrow> string" where
  "path_join a b =
     (if startswith b ''/'' then b
      else if a = [] \<or> endswith a ''/'' then a @ b
      else a @ ''/'' @ b)"

fun norm_comps :: "bool \<Rightarrow> string list \<Rightarrow> string list \<Rightarrow> string list" where
  "norm_comps init new_comps [] = new_comps"
| "norm_comps init new_comps (seg # comps) =
     (if seg = [] \<or> seg = ''.'' then norm_comps init new_comps comps
      else if seg \<noteq> ''..'' \<or> (\<not> init \<and> new_comps = [])
              \<or> (new_comps \<noteq> [] \<and> last new_comps = ''..'')
        then norm_comps init (new_comps @ [seg]) comps
      else if new_comps \<noteq> [] then norm_comps init (butlast new_comps) comps
      else norm_comps init new_comps comps)"

definition initial_slashes :: "string \<Rightarrow> nat" where
  "initial_slashes path =
     (if startswith path ''/''
      then (if startswith path ''//'' \<and> \<not> startswith path ''///'' then 2 else 1)
      else 0)"

definition normpath :: "string \<Rightarrow> string" where
  "normpath path =
     (if path = [] then ''.''
      else let comps = norm_comps (initial_slashes path \<noteq> 0) [] (split_on CHR ''/'' path);
               p = replicate (initial_slashes path) CHR ''/'' @ join_with ''/'' comps
           in if p = [] then ''.'' else p)"

definition path_resolve :: "string \<Rightarrow> string \<Rightarrow> string" where
  "path_resolve path cwd =
     (if isabs path then normpath path else normpath (path_join cwd path))"

subsection \<open>Python string operations on UTF-8 text\<close>

definition ws_seqs :: "string list" where
  "ws_seqs =
     [[CHR 0x09], [CHR 0x0A], [CHR 0x0B], [CHR 0x0C], [CHR 0x0D],
      [CHR 0x1C], [CHR 0x1D], [CHR 0x1E], [CHR 0x1F], [CHR 0x20],
      [CHR 0xC2, CHR 0x85], [CHR 0xC2, CHR 0xA0],
      [CHR 0xE1, CHR 0x9A, CHR 0x80],
      [CHR 0xE2, CHR 0x80, CHR 0x80], [CHR 0xE2, CHR 0x80, CHR 0x81],
      [CHR 0xE2, CHR 0x80, CHR 0x82], [CHR 0xE2, CHR 0x80, CHR 0x83],
      [CHR 0xE2, CHR 0x80, CHR 0x84], [CHR 0xE2, CHR 0x80, CHR 0x85],
      [CHR 0xE2, CHR 0x80, CHR 0x86], [CHR 0xE2, CHR 0x80, CHR 0x87],
      [CHR 0xE2, CHR 0x80, CHR 0x88], [CHR 0xE2, CHR 0x80, CHR 0x89],
      [CHR 0xE2, CHR 0x80, CHR 0x8A],
      [CHR 0xE2, CHR 0x80, CHR 0xA8], [CHR 0xE2, CHR 0x80, CHR 0xA9],
      [CHR 0xE2, CHR 0x80, CHR 0xAF], [CHR 0xE2, CHR 0x81, CHR 0x9F],
      [CHR 0xE3, CHR 0x80, CHR 0x80]]"

definition ws_prefix :: "string \<Rightarrow> string option" where
  "ws_prefix s = List.find (\<lambda>w. startswith s w) ws_seqs"

definition ws_suffix :: "string \<Rightarrow> string option" where
  "ws_suffix s = List.find (\<lambda>w. endswith s w) ws_seqs"

lemma ws_seqs_nonempty: "w \<in> set ws_seqs \<Longrightarrow> w \<noteq> []"
  by (auto simp: ws_seqs_def)

lemma ws_prefix_shorter: "ws_prefix s = Some w \<Longrightarrow> length s - length w < length s"
proof -
  assume "ws_prefix s = Some w"
  then have "w \<in> set ws_seqs" "startswith s w"
    by (auto simp: ws_prefix_def find_Some_iff)
  then have "w \<noteq> []" "take (length w) s = w"
    by (auto simp: ws_seqs_nonempty startswith_def)
  then show ?thesis by (cases s; cases w) auto
qed

lemma ws_suffix_shorter: "ws_suffix s = Some w \<Longrightarrow> length s - length w < length s"
proof -
  assume "ws_suffix s = Some w"
  then have "w \<in> set ws_seqs" "endswith s w"
    by (auto simp: ws_suffix_def find_Some_iff)
  then have "w \<noteq> []" "length w \<le> length s"
    by (auto simp: ws_seqs_nonempty endswith_def)
  then show ?thesis by (cases s; cases w) auto
qed

function lstrip :: "string \<Rightarrow> string" where
  "lstrip s = (case ws_prefix s of None \<Rightarrow> s | Some w \<Rightarrow> lstrip (drop (length w) s))"
  by pat_completeness auto
termination
  by (relation "measure length") (auto simp: ws_prefix_shorter)

function rstrip :: "string \<Rightarrow> string" where
  "rstrip s = (case ws_suffix s of None \<Rightarrow> s
               | Some w \<Rightarrow> rstrip (take (length s - length w) s))"
  by pat_completeness auto
termination
  by (relation "measure length") (auto simp: ws_suffix_shorter)

definition py_strip :: "string \<Rightarrow> string" where
  "py_strip s = rstrip (lstrip s)"

function split_ws :: "string \<Rightarrow> string \<Rightarrow> string list" where
  "split_ws cur s =
     (if s = [] then (if cur = [] then [] else [cur])
      else case ws_prefix s of
             Some w \<Rightarrow> (if cur = [] then [] else [cur]) @ split_ws [] (drop (length w) s)
           | None \<Rightarrow> split_ws (cur @ [hd s]) (tl s))"
  by pat_completeness auto
termination
  by (relation "measure (\<lambda>(cur, s). length s)") (auto simp: ws_prefix_shorter)

definition is_cont :: "char \<Rightarrow> bool" where
  "is_cont c = (0x80 \<le> (of_char c :: nat) \<and> (of_char c :: nat) < 0xC0)"

definition py_len :: "string \<Rightarrow> nat" where
  "py_len s = length (filter (\<lambda>c. \<not> is_cont c) s)"

fun py_take :: "nat \<Rightarrow> string \<Rightarrow> string" where
  "py_take n [] = []"
| "py_take n (c # r) =
     (if is_cont c then c # py_take n r
      else (case n of 0 \<Rightarrow> [] | Suc m \<Rightarrow> c # py_take m r))"

definition ljust :: "nat \<Rightarrow> string \<Rightarrow> string" where
  "ljust w s = s @ replicate (w - py_len s) CHR '' ''"

definition rjust :: "nat \<Rightarrow> string \<Rightarrow> string" where
  "rjust w s = replicate (w - py_len s) CHR '' '' @ s"

definition digit_char :: "nat \<Rightarrow> char" where
  "digit_char d = char_of (48 + d)"

fun str_of_nat :: "nat \<Rightarrow> string" where
  "str_of_nat n = (if n < 10 then [digit_char n] else str_of_nat (n div 10) @ [digit_char (n mod 10)])"

definition str_of_int :: "int \<Rightarrow> string" where
  "str_of_int i = (if i < 0 then ''-'' @ str_of_nat (nat (- i)) else str_of_nat (nat i))"

definition zfill2 :: "int \<Rightarrow> string" where
  "zfill2 i =
     (if i < 0 then ''-'' @ replicate (1 - length (str_of_nat (nat (- i)))) CHR ''0''
                     @ str_of_nat (nat (- i))
      else replicate (2 - length (str_of_nat (nat i))) CHR ''0'' @ str_of_nat (nat i))"

fun is_substring :: "string \<Rightarrow> string \<Rightarrow> bool" where
  "is_substring p [] = (p = [])"
| "is_substring p (c # s) = (startswith (c # s) p \<or> is_substring p s)"

fun split_max :: "char \<Rightarrow> nat \<Rightarrow> string \<Rightarrow> string list" where
  "split_max c 0 s = [s]"
| "split_max c (Suc n) [] = [[]]"
| "split_max c (Suc n) (x # xs) =
     (if x = c then [] # split_max c n xs
      else (case split_max c (Suc n) xs of [] \<Rightarrow> [[x]] | w # ws \<Rightarrow> (x # w) # ws))"

fun univ_nl :: "string \<Rightarrow> string" where
  "univ_nl [] = []"
| "univ_nl [c] = (if c = CHR 0x0D then [CHR 0x0A] else [c])"
| "univ_nl (c # d # r) =
     (if c = CHR 0x0D \<and> d = CHR 0x0A then CHR 0x0A # univ_nl r
      else if c = CHR 0x0D then CHR 0x0A # univ_nl (d # r)
      else c # univ_nl (d # r))"

fun lines_acc :: "string \<Rightarrow> string \<Rightarrow> string list" where
  "lines_acc cur [] = (if cur = [] then [] else [cur])"
| "lines_acc cur (c # r) =
     (if c = CHR 0x0A then (cur @ [c]) # lines_acc [] r else lines_acc (cur @ [c]) r)"

definition py_lines :: "string \<Rightarrow> string list" where
  "py_lines s = lines_acc [] s"

fun index_of :: "string \<Rightarrow> string list \<Rightarrow> nat" where
  "index_of x [] = 0"
| "index_of x (y # ys) = (if x = y then 0 else Suc (index_of x ys))"

text \<open>The unfolding equations of the functions above are used on demand only.\<close>

declare lstrip.simps [simp del] rstrip.simps [simp del] split_ws.simps [simp del]
  str_of_nat.simps [simp del]

section \<open>The interpreter's environment\<close>

subsection \<open>Exceptions\<close>

text \<open>
  Exceptions are values. \<open>OSError errno strerror filename\<close> stands for \<open>OSError\<close> and its
  subclasses (\<open>FileNotFoundError\<close> is errno 2, \<open>FileExistsError\<close> errno 17,
  \<open>NotADirectoryError\<close> errno 20, \<open>IsADirectoryError\<close> errno 21). \<open>LibError\<close> is any other
  exception of a library call, with its message. \<open>exn_str\<close> is Python's \<open>str(e)\<close>.
\<close>

datatype exn =
    OSError nat string string
  | ValueError string
  | IndexError string
  | TypeError string
  | UnsupportedOperation string
  | LibError string

definition hex_digit :: "nat \<Rightarrow> char" where
  "hex_digit d = (if d < 10 then char_of (48 + d) else char_of (87 + d))"

definition repr_char :: "char \<Rightarrow> char \<Rightarrow> string" where
  "repr_char q c =
     (if c = CHR 0x5C then [CHR 0x5C, CHR 0x5C]
      else if c = q \<and> q = CHR 0x27 then [CHR 0x5C, c]
      else if c = CHR 0x0A then [CHR 0x5C, CHR ''n'']
      else if c = CHR 0x0D then [CHR 0x5C, CHR ''r'']
      else if c = CHR 0x09 then [CHR 0x5C, CHR ''t'']
      else if (of_char c :: nat) < 32 \<or> (of_char c :: nat) = 127
        then [CHR 0x5C, CHR ''x'', hex_digit ((of_char c :: nat) div 16),
              hex_digit ((of_char c :: nat) mod 16)]
      else [c])"

definition py_repr :: "string \<Rightarrow> string" where
  "py_repr s =
     (let q = (if CHR 0x27 \<in> set s \<and> CHR 0x22 \<notin> set s then CHR 0x22 else CHR 0x27)
      in q # concat (map (repr_char q) s) @ [q])"

definition strerror :: "nat \<Rightarrow> string" where
  "strerror e =
     (if e = 2 then ''No such file or directory''
      else if e = 13 then ''Permission denied''
      else if e = 16 then ''Device or resource busy''
      else if e = 17 then ''File exists''
      else if e = 20 then ''Not a directory''
      else if e = 21 then ''Is a directory''
      else if e = 22 then ''Invalid argument''
      else if e = 28 then ''No space left on device''
      else if e = 39 then ''Directory not empty''
      else ''Unknown error '' @ str_of_nat e)"

definition os_error :: "nat \<Rightarrow> string \<Rightarrow> exn" where
  "os_error e path = OSError e (strerror e) path"

fun exn_str :: "exn \<Rightarrow> string" where
  "exn_str (OSError e msg path) = ''[Errno '' @ str_of_nat e @ ''] '' @ msg @ '': '' @ py_repr path"
| "exn_str (ValueError m) = m"
| "exn_str (IndexError m) = m"
| "exn_str (TypeError m) = m"
| "exn_str (UnsupportedOperation m) = m"
| "exn_str (LibError m) = m"

definition is_ValueError :: "exn \<Rightarrow> bool" where
  "is_ValueError e = (case e of ValueError _ \<Rightarrow> True | UnsupportedOperation _ \<Rightarrow> True | _ \<Rightarrow> False)"

definition is_FileExistsError :: "exn \<Rightarrow> bool" where
  "is_FileExistsError e = (case e of OSError n _ _ \<Rightarrow> n = 17 | _ \<Rightarrow> False)"

definition is_OSError :: "exn \<Rightarrow> bool" where
  "is_OSError e = (case e of OSError _ _ _ \<Rightarrow> True | UnsupportedOperation _ \<Rightarrow> True | _ \<Rightarrow> False)"

subsection \<open>The file system\<close>

text \<open>
  The file system is a tree: a regular file with its bytes, or a directory with its entries
  in listing order. There are no symbolic links, and file contents are valid UTF-8, so that
  decoding is the identity. What the tree does not hold (access rights, a full disk, an
  I/O error) reaches the interpreter through the fault fields of the host record below.
  \<open>walk\<close> follows the names of a canonical path from a node and reports the errno of a
  failed lookup.
\<close>

datatype node = File string | Dir "(string \<times> node) list"

fun walk :: "node \<Rightarrow> string list \<Rightarrow> nat + node" where
  "walk n [] = Inr n"
| "walk n (c # cs) =
     (case n of
        File _ \<Rightarrow> Inl 20
      | Dir es \<Rightarrow> (case map_of es c of None \<Rightarrow> Inl 2 | Some m \<Rightarrow> walk m cs))"

definition lookup :: "node \<Rightarrow> string list \<Rightarrow> node option" where
  "lookup fs cs = (case walk fs cs of Inr n \<Rightarrow> Some n | Inl _ \<Rightarrow> None)"

fun put :: "node \<Rightarrow> string list \<Rightarrow> node \<Rightarrow> node" where
  "put n [] new = new"
| "put n (c # cs) new =
     (case n of
        File x \<Rightarrow> File x
      | Dir es \<Rightarrow>
          (case map_of es c of
             Some m \<Rightarrow> Dir (AList.update c (put m cs new) es)
           | None \<Rightarrow> if cs = [] then Dir (AList.update c new es) else Dir es))"

fun del :: "node \<Rightarrow> string list \<Rightarrow> node" where
  "del n [] = n"
| "del n (c # cs) =
     (case n of
        File x \<Rightarrow> File x
      | Dir es \<Rightarrow>
          (if cs = [] then Dir (AList.delete c es)
           else case map_of es c of
                  Some m \<Rightarrow> Dir (AList.update c (del m cs) es)
                | None \<Rightarrow> Dir es))"

fun fresh_dirs :: "string list \<Rightarrow> node" where
  "fresh_dirs [] = Dir []"
| "fresh_dirs (c # cs) = Dir [(c, fresh_dirs cs)]"

fun mkdirs :: "node \<Rightarrow> string list \<Rightarrow> bool \<Rightarrow> nat + node" where
  "mkdirs n [] exist_ok =
     (case n of Dir es \<Rightarrow> if exist_ok then Inr n else Inl 17 | File _ \<Rightarrow> Inl 17)"
| "mkdirs n (c # cs) exist_ok =
     (case n of
        File _ \<Rightarrow> Inl 20
      | Dir es \<Rightarrow>
          (case map_of es c of
             None \<Rightarrow> Inr (Dir (AList.update c (fresh_dirs cs) es))
           | Some m \<Rightarrow>
               (case mkdirs m cs exist_ok of
                  Inl e \<Rightarrow> Inl e
                | Inr m' \<Rightarrow> Inr (Dir (AList.update c m' es)))))"

subsection \<open>What the interpreter reads from its host\<close>

text \<open>
  Everything the interpreter takes from the operating system besides the file tree is a
  field of \<open>env\<close>: the process's own working directory (relative paths given to the
  operating system start there), the home directory, the system metrics (psutil), the
  clock, user and host names, the digests, and the library operations on files whose
  result no property here depends on (\<open>shutil.move\<close>, \<open>shutil.copytree\<close>,
  \<open>shutil.copy2\<close>, \<open>os.chmod\<close>, the time and mode fields of \<open>os.stat\<close>). Floating-point
  figures are carried as the text Python prints for them.

  The fault fields say when a call fails for a reason the tree does not show:
  \<open>open_fault path mode\<close> is the exception \<open>open\<close> raises (access denied, for one);
  \<open>write_fault path data\<close> is the exception that writing \<open>data\<close> to the open file raises,
  with the number of bytes that reached the file before it (a full disk, text that cannot
  be encoded); \<open>unlink_fault path\<close> is the exception of \<open>os.remove\<close> or \<open>os.rmdir\<close>;
  \<open>rmtree_fault fs path\<close> is the exception of \<open>shutil.rmtree\<close> with the file system it
  leaves behind.
\<close>

record proc_info =
  p_pid :: int
  p_name :: "string option"
  p_cpu :: "string option"
  p_mem :: "string option"

record env =
  proc_cwd :: string
  home_dir :: string
  cpu_percent :: string
  mem_total :: int
  mem_used :: int
  mem_percent :: string
  procs :: "proc_info list"
  disk_total :: int
  disk_used :: int
  disk_free :: int
  disk_percent :: string
  uptime_days :: int
  uptime_seconds :: nat
  now_text :: string
  user_name :: "exn + string"
  host_name :: string
  mtime_text :: "string \<Rightarrow> string"
  dir_size :: "string \<Rightarrow> nat"
  stat_mode :: "string \<Rightarrow> string"
  stat_atime :: "string \<Rightarrow> string"
  stat_mtime :: "string \<Rightarrow> string"
  stat_ctime :: "string \<Rightarrow> string"
  md5_hex :: "string \<Rightarrow> string"
  sha256_hex :: "string \<Rightarrow> string"
  shutil_move :: "node \<Rightarrow> string \<Rightarrow> string \<Rightarrow> exn + node"
  shutil_copytree :: "node \<Rightarrow> string \<Rightarrow> string \<Rightarrow> exn + node"
  shutil_copy2 :: "node \<Rightarrow> string \<Rightarrow> string \<Rightarrow> exn + node"
  os_chmod :: "node \<Rightarrow> string \<Rightarrow> int \<Rightarrow> exn + node"
  open_fault :: "string \<Rightarrow> string \<Rightarrow> exn option"
  write_fault :: "string \<Rightarrow> string \<Rightarrow> (exn \<times> nat) option"
  unlink_fault :: "string \<Rightarrow> exn option"
  rmtree_fault :: "node \<Rightarrow> string \<Rightarrow> (exn \<times> node) option"

subsection \<open>Path resolution by the operating system\<close>

text \<open>
  The operating system resolves a path name by name, from the root or from the process's
  working directory: every name is looked up in a directory that must exist, \<open>.\<close> stays
  and \<open>..\<close> goes up (the root is its own parent). \<open>descend\<close> does this on canonical
  paths; the node at the path it returns need not exist. A path that ends in a slash
  names a directory.
\<close>

definition path_names :: "string \<Rightarrow> string list" where
  "path_names p = filter (\<lambda>c. c \<noteq> []) (split_on CHR ''/'' p)"

definition trailing_slash :: "string \<Rightarrow> bool" where
  "trailing_slash p = (p \<noteq> [] \<and> last p = CHR ''/'')"

definition ends_in_dots :: "string \<Rightarrow> bool" where
  "ends_in_dots p =
     (path_names p \<noteq> [] \<and> (last (path_names p) = ''.'' \<or> last (path_names p) = ''..''))"

definition start_dir :: "env \<Rightarrow> string \<Rightarrow> string list" where
  "start_dir e p =
     (if isabs p then [] else norm_comps True [] (split_on CHR ''/'' (proc_cwd e)))"

fun descend :: "node \<Rightarrow> string list \<Rightarrow> string list \<Rightarrow> nat + string list" where
  "descend fs cur [] = Inr cur"
| "descend fs cur (c # cs) =
     (case walk fs cur of
        Inl n \<Rightarrow> Inl n
      | Inr (File _) \<Rightarrow> Inl 20
      | Inr (Dir _) \<Rightarrow>
          descend fs (if c = ''.'' then cur else if c = ''..'' then butlast cur else cur @ [c]) cs)"

definition bad_path :: "string \<Rightarrow> exn" where
  "bad_path p = (if p = [] then os_error 2 p else ValueError ''embedded null byte'')"

definition os_resolve :: "env \<Rightarrow> node \<Rightarrow> string \<Rightarrow> exn + string list" where
  "os_resolve e fs p =
     (if p = [] \<or> CHR 0x00 \<in> set p then Inl (bad_path p)
      else case descend fs (start_dir e p) (path_names p) of
             Inl n \<Rightarrow> Inl (os_error n p)
           | Inr cs \<Rightarrow> Inr cs)"

text \<open>\<open>os_stat\<close> is the entry a path names, for the calls that need it to exist.\<close>

definition os_stat :: "env \<Rightarrow> node \<Rightarrow> string \<Rightarrow> exn + node" where
  "os_stat e fs p =
     (case os_resolve e fs p of
        Inl x \<Rightarrow> Inl x
      | Inr cs \<Rightarrow>
          (case walk fs cs of
             Inl n \<Rightarrow> Inl (os_error n p)
           | Inr (File c) \<Rightarrow> if trailing_slash p then Inl (os_error 20 p) else Inr (File c)
           | Inr (Dir es) \<Rightarrow> Inr (Dir es)))"

subsection \<open>Operating-system calls on path strings\<close>

definition os_lookup :: "env \<Rightarrow> node \<Rightarrow> string \<Rightarrow> node option" where
  "os_lookup e fs p = (case os_stat e fs p of Inl _ \<Rightarrow> None | Inr n \<Rightarrow> Some n)"

definition path_exists :: "env \<Rightarrow> node \<Rightarrow> string \<Rightarrow> bool" where
  "path_exists e fs p = (os_lookup e fs p \<noteq> None)"

definition path_isdir :: "env \<Rightarrow> node \<Rightarrow> string \<Rightarrow> bool" where
  "path_isdir e fs p = (case os_lookup e fs p of Some (Dir _) \<Rightarrow> True | _ \<Rightarrow> False)"

definition path_isfile :: "env \<Rightarrow> node \<Rightarrow> string \<Rightarrow> bool" where
  "path_isfile e fs p = (case os_lookup e fs p of Some (File _) \<Rightarrow> True | _ \<Rightarrow> False)"

definition basename :: "string \<Rightarrow> string" where
  "basename p = last (split_on CHR ''/'' p)"

definition dirname :: "string \<Rightarrow> string" where
  "dirname p =
     (let parts = split_on CHR ''/'' p in
      if length parts \<le> 1 then []
      else let head = join_with ''/'' (butlast parts) @ ''/'' in
           if head \<noteq> replicate (length head) CHR ''/''
           then rev (dropWhile (\<lambda>c. c = CHR ''/'') (rev head))
           else head)"

definition os_listdir :: "env \<Rightarrow> node \<Rightarrow> string \<Rightarrow> exn + string list" where
  "os_listdir e fs p =
     (case os_stat e fs p of
        Inl x \<Rightarrow> Inl x
      | Inr (File _) \<Rightarrow> Inl (os_error 20 p)
      | Inr (Dir es) \<Rightarrow> Inr (remdups (map fst es)))"

text \<open>
  \<open>os.makedirs\<close> takes the path apart itself, name by name from the right. Its arguments
  here are normalised paths, and \<open>makedirs_names\<close> is the list of their names below the
  root.
\<close>

definition makedirs_names :: "env \<Rightarrow> string \<Rightarrow> string list option" where
  "makedirs_names e p =
     (if p = [] \<or> CHR 0x00 \<in> set p then None
      else Some (norm_comps True []
                   (split_on CHR ''/'' (if isabs p then p else path_join (proc_cwd e) p))))"

definition os_makedirs :: "env \<Rightarrow> node \<Rightarrow> string \<Rightarrow> bool \<Rightarrow> exn + node" where
  "os_makedirs e fs p exist_ok =
     (case makedirs_names e p of
        None \<Rightarrow> Inl (bad_path p)
      | Some cs \<Rightarrow>
          (case mkdirs fs cs exist_ok of
             Inl n \<Rightarrow> Inl (os_error n p)
           | Inr fs' \<Rightarrow> Inr fs'))"

definition os_rmdir :: "env \<Rightarrow> node \<Rightarrow> string \<Rightarrow> exn + node" where
  "os_rmdir e fs p =
     (case unlink_fault e p of
        Some x \<Rightarrow> Inl x
      | None \<Rightarrow>
          (case os_resolve e fs p of
             Inl x \<Rightarrow> Inl x
           | Inr cs \<Rightarrow>
               (case walk fs cs of
                  Inl n \<Rightarrow> Inl (os_error n p)
                | Inr (File _) \<Rightarrow> Inl (os_error 20 p)
                | Inr (Dir es) \<Rightarrow>
                    if cs = [] then Inl (os_error 16 p)
                    else if ends_in_dots p then Inl (os_error 22 p)
                    else if es \<noteq> [] then Inl (os_error 39 p)
                    else Inr (del fs cs))))"

definition os_remove :: "env \<Rightarrow> node \<Rightarrow> string \<Rightarrow> exn + node" where
  "os_remove e fs p =
     (case unlink_fault e p of
        Some x \<Rightarrow> Inl x
      | None \<Rightarrow>
          (case os_resolve e fs p of
             Inl x \<Rightarrow> Inl x
           | Inr cs \<Rightarrow>
               (case walk fs cs of
                  Inl n \<Rightarrow> Inl (os_error n p)
                | Inr (Dir _) \<Rightarrow> Inl (os_error 21 p)
                | Inr (File _) \<Rightarrow>
                    if trailing_slash p then Inl (os_error 20 p) else Inr (del fs cs))))"

text \<open>
  \<open>shutil.rmtree\<close> removes the entries below the directory and then the directory. The
  root, and a directory named through \<open>.\<close> or \<open>..\<close>, cannot be removed: there the entries
  go and the call raises.
\<close>

definition shutil_rmtree :: "env \<Rightarrow> node \<Rightarrow> string \<Rightarrow> exn option \<times> node" where
  "shutil_rmtree e fs p =
     (case rmtree_fault e fs p of
        Some (x, fs') \<Rightarrow> (Some x, fs')
      | None \<Rightarrow>
          (case os_resolve e fs p of
             Inl x \<Rightarrow> (Some x, fs)
           | Inr cs \<Rightarrow>
               (case walk fs cs of
                  Inl n \<Rightarrow> (Some (os_error n p), fs)
                | Inr (File _) \<Rightarrow> (Some (os_error 20 p), fs)
                | Inr (Dir es) \<Rightarrow>
                    if cs = [] then (Some (os_error 16 p), put fs cs (Dir []))
                    else if ends_in_dots p then (Some (os_error 22 p), put fs cs (Dir []))
                    else (None, del fs cs))))"

definition os_getsize :: "env \<Rightarrow> node \<Rightarrow> string \<Rightarrow> exn + nat" where
  "os_getsize e fs p =
     (case os_stat e fs p of
        Inl x \<Rightarrow> Inl x
      | Inr (File c) \<Rightarrow> Inr (length c)
      | Inr (Dir _) \<Rightarrow> Inr (dir_size e p))"

subsection \<open>Opening files\<close>

text \<open>
  \<open>parse_mode\<close> is the mode check of Python's \<open>open\<close>: the base mode (one of r, w, a, x),
  whether \<open>+\<close> is given, and whether the mode is binary.
\<close>

definition parse_mode :: "string \<Rightarrow> exn + (char \<times> bool \<times> bool)" where
  "parse_mode m =
     (let base = filter (\<lambda>c. c \<in> set ''rwax'') m in
      if \<not> (set m \<subseteq> set ''axrwb+t'') \<or> \<not> distinct m
        then Inl (ValueError (''invalid mode: '' @ py_repr m))
      else if CHR ''t'' \<in> set m \<and> CHR ''b'' \<in> set m
        then Inl (ValueError ''can't have text and binary mode at once'')
      else if length base > 1
        then Inl (ValueError ''must have exactly one of create/read/write/append mode'')
      else if base = []
        then Inl (ValueError
          ''Must have exactly one of create/read/write/append mode and at most one plus'')
      else Inr (hd base, CHR ''+'' \<in> set m, CHR ''b'' \<in> set m))"

text \<open>
  \<open>open_target e fs p k\<close> is what \<open>open\<close> finds for base mode \<open>k\<close>: the canonical path
  of the file and its content before the call (\<open>None\<close> if the call creates it), or the
  exception. Every mode but \<open>r\<close> may create the file, and then a path that names a
  directory (by a trailing slash or a last name \<open>.\<close> or \<open>..\<close>) is refused as one.
\<close>

definition open_target ::
  "env \<Rightarrow> node \<Rightarrow> string \<Rightarrow> char \<Rightarrow> exn + (string list \<times> string option)" where
  "open_target e fs p k =
     (case os_resolve e fs p of
        Inl x \<Rightarrow> Inl x
      | Inr cs \<Rightarrow>
          if k \<noteq> CHR ''r'' \<and> (cs = [] \<or> trailing_slash p \<or> ends_in_dots p)
            then Inl (os_error 21 p)
          else (case walk fs cs of
             Inr (Dir _) \<Rightarrow> Inl (os_error 21 p)
           | Inr (File old) \<Rightarrow>
               if trailing_slash p then Inl (os_error 20 p)
               else if k = CHR ''x'' then Inl (os_error 17 p)
               else Inr (cs, Some old)
           | Inl n \<Rightarrow> if k = CHR ''r'' then Inl (os_error n p) else Inr (cs, None)))"

text \<open>
  \<open>write_file e fs p mode data\<close> is
  \<open>with open(p, mode, encoding="utf-8") as f: f.write(data)\<close>: the exception raised, if
  any, and the file system left behind. \<open>open\<close> creates the file or cuts it to length 0
  (mode \<open>w\<close>) before anything is written; a write that then raises leaves the file with
  the bytes that reached it. \<open>opened\<close> is the content right after \<open>open\<close>, \<open>written\<close> the
  content once \<open>n\<close> bytes of the data are in the file.
\<close>

definition opened :: "char \<Rightarrow> string option \<Rightarrow> string" where
  "opened k old = (case old of None \<Rightarrow> [] | Some c \<Rightarrow> if k = CHR ''w'' then [] else c)"

definition written :: "char \<Rightarrow> string option \<Rightarrow> string \<Rightarrow> nat \<Rightarrow> string" where
  "written k old data n =
     (if k = CHR ''r'' then take n data @ drop n (opened k old)
      else opened k old @ take n data)"

definition write_file :: "env \<Rightarrow> node \<Rightarrow> string \<Rightarrow> string \<Rightarrow> string \<Rightarrow> exn option \<times> node" where
  "write_file e fs p mode data =
     (case parse_mode mode of
        Inl x \<Rightarrow> (Some x, fs)
      | Inr (k, upd, binary) \<Rightarrow>
          if binary then (Some (ValueError ''binary mode doesn't take an encoding argument''), fs)
          else (case open_fault e p mode of
             Some x \<Rightarrow> (Some x, fs)
           | None \<Rightarrow>
               (case open_target e fs p k of
                  Inl x \<Rightarrow> (Some x, fs)
                | Inr (cs, old) \<Rightarrow>
                    if k = CHR ''r'' \<and> \<not> upd
                      then (Some (UnsupportedOperation ''not writable''), fs)
                    else (case write_fault e p data of
                       Some (x, n) \<Rightarrow> (Some x, put fs cs (File (written k old data n)))
                     | None \<Rightarrow>
                         (None, put fs cs (File (written k old data (length data))))))))"

text \<open>
  \<open>read_file e fs p mode\<close> is \<open>open(p, mode).read()\<close> for a reading mode: the bytes of the
  file. \<open>read_text\<close> is the text-mode read of the handlers (\<open>errors="replace"\<close>), which turns
  \<open>\r\n\<close> and \<open>\r\<close> into \<open>\n\<close>; \<open>read_bytes\<close> is the binary read.
\<close>

definition read_file :: "env \<Rightarrow> node \<Rightarrow> string \<Rightarrow> string \<Rightarrow> exn + string" where
  "read_file e fs p mode =
     (case open_fault e p mode of
        Some x \<Rightarrow> Inl x
      | None \<Rightarrow>
          (case os_stat e fs p of
             Inl x \<Rightarrow> Inl x
           | Inr (Dir _) \<Rightarrow> Inl (os_error 21 p)
           | Inr (File c) \<Rightarrow> Inr c))"

definition read_bytes :: "env \<Rightarrow> node \<Rightarrow> string \<Rightarrow> exn + string" where
  "read_bytes e fs p = read_file e fs p ''rb''"

definition read_text :: "env \<Rightarrow> node \<Rightarrow> string \<Rightarrow> exn + string" where
  "read_text e fs p = (case read_file e fs p ''r'' of Inl x \<Rightarrow> Inl x | Inr c \<Rightarrow> Inr (univ_nl c))"

section \<open>The tokenizer\<close>

text \<open>
  \<open>shlex.split(line)\<close>: the library's lexer in POSIX mode, splitting on whitespace only and
  with no comment characters. \<open>lex\<close> runs \<open>read_token\<close> over the rest of the input: the
  lexer's state, the token so far, whether the token had a quoted part, the state to
  return to after an escape, and the input. A finished token is put in front of the
  tokens of the rest; \<open>read_token\<close> starts again with an empty token. Since every other
  character joins a word (\<open>whitespace_split\<close>), the word characters need no case of their
  own.
\<close>

datatype lexstate = LSpace | LWord | LQuote char | LEscape

definition lex_whitespace :: "char \<Rightarrow> bool" where
  "lex_whitespace c = (c = CHR '' '' \<or> c = CHR 0x09 \<or> c = CHR 0x0D \<or> c = CHR 0x0A)"

definition lex_quote :: "char \<Rightarrow> bool" where
  "lex_quote c = (c = CHR 0x27 \<or> c = CHR 0x22)"

definition lex_escape :: "char \<Rightarrow> bool" where
  "lex_escape c = (c = CHR 0x5C)"

definition emit :: "string \<Rightarrow> exn + string list \<Rightarrow> exn + string list" where
  "emit tok r = (case r of Inl x \<Rightarrow> Inl x | Inr ts \<Rightarrow> Inr (tok # ts))"

fun lex :: "lexstate \<Rightarrow> string \<Rightarrow> bool \<Rightarrow> lexstate \<Rightarrow> string \<Rightarrow> exn + string list" where
  "lex LSpace tok quoted esc [] = Inr (if tok \<noteq> [] \<or> quoted then [tok] else [])"
| "lex LWord tok quoted esc [] = Inr (if tok \<noteq> [] \<or> quoted then [tok] else [])"
| "lex (LQuote q) tok quoted esc [] = Inl (ValueError ''No closing quotation'')"
| "lex LEscape tok quoted esc [] = Inl (ValueError ''No escaped character'')"
| "lex LSpace tok quoted esc (c # cs) =
     (if lex_whitespace c then
        (if tok \<noteq> [] \<or> quoted then emit tok (lex LSpace [] False LSpace cs)
         else lex LSpace tok quoted esc cs)
      else if lex_escape c then lex LEscape tok quoted LWord cs
      else if lex_quote c then lex (LQuote c) tok quoted esc cs
      else lex LWord [c] quoted esc cs)"
| "lex (LQuote q) tok quoted esc (c # cs) =
     (if c = q then lex LWord tok True esc cs
      else if lex_escape c \<and> q = CHR 0x22 then lex LEscape tok True (LQuote q) cs
      else lex (LQuote q) (tok @ [c]) True esc cs)"
| "lex LEscape tok quoted esc (c # cs) =
     (case esc of
        LQuote q \<Rightarrow>
          if c \<noteq> CHR 0x5C \<and> c \<noteq> q then lex esc (tok @ [CHR 0x5C, c]) quoted esc cs
          else lex esc (tok @ [c]) quoted esc cs
      | _ \<Rightarrow> lex esc (tok @ [c]) quoted esc cs)"
| "lex LWord tok quoted esc (c # cs) =
     (if lex_whitespace c then
        (if tok \<noteq> [] \<or> quoted then emit tok (lex LSpace [] False LSpace cs)
         else lex LSpace tok quoted esc cs)
      else if lex_quote c then lex (LQuote c) tok quoted esc cs
      else if lex_escape c then lex LEscape tok quoted LWord cs
      else lex LWord (tok @ [c]) quoted esc cs)"

definition shlex_split :: "string \<Rightarrow> exn + string list" where
  "shlex_split s = lex LSpace [] False LSpace s"

section \<open>The verb handlers\<close>

text \<open>
  A handler's result is the tuple \<open>(stdout, stderr, new_cwd, exit_code)\<close>, where
  \<open>new_cwd = None\<close> is the "unchanged" sentinel. A handler either returns a result or raises,
  and leaves a file system behind in both cases.
\<close>

type_synonym result = "string \<times> string \<times> string option \<times> int"

type_synonym outcome = "(exn + result) \<times> node"

definition index_error :: exn where
  "index_error = IndexError ''list index out of range''"

definition py_nth :: "'a list \<Rightarrow> nat \<Rightarrow> exn + 'a" where
  "py_nth xs i = (if i < length xs then Inr (xs ! i) else Inl index_error)"

subsection \<open>ls\<close>

fun ls_flags :: "string list \<Rightarrow> string \<Rightarrow> string \<times> bool \<times> bool \<Rightarrow> string \<times> bool \<times> bool" where
  "ls_flags [] cwd st = st"
| "ls_flags (a # as) cwd (target, long_format, show_all) =
     ls_flags as cwd
       (if a = ''-l'' then (target, True, show_all)
        else if a = ''-a'' then (target, long_format, True)
        else if a = ''-la'' \<or> a = ''-al'' then (target, True, True)
        else if \<not> startswith a ''-'' then (path_resolve a cwd, long_format, show_all)
        else (target, long_format, show_all))"

definition ls_long_line :: "env \<Rightarrow> node \<Rightarrow> string \<Rightarrow> string \<Rightarrow> string" where
  "ls_long_line e fs target name =
     (let p = path_join target name in
      case os_getsize e fs p of
        Inl _ \<Rightarrow> ''?  '' @ rjust 10 ''?'' @ ''  '' @ rjust 16 ''?'' @ ''  '' @ name
      | Inr sz \<Rightarrow>
          (if path_isdir e fs p then ''d'' else ''-'') @ ''  '' @ rjust 10 (str_of_nat sz)
            @ ''  '' @ mtime_text e p @ ''  '' @ name)"

definition ls :: "env \<Rightarrow> string list \<Rightarrow> string \<Rightarrow> node \<Rightarrow> outcome" where
  "ls e args cwd fs =
     (case ls_flags args cwd (cwd, False, False) of (target, long_format, show_all) \<Rightarrow>
      if \<not> path_exists e fs target then
        (Inr ([], ''ls: cannot access '' @ [CHR 0x27] @ target @ [CHR 0x27]
                   @ '': No such file or directory\<newline>'', Some cwd, 2), fs)
      else if path_isfile e fs target then
        (Inr (basename target @ ''\<newline>'', [], Some cwd, 0), fs)
      else case os_listdir e fs target of
        Inl x \<Rightarrow> (Inl x, fs)
      | Inr listed \<Rightarrow>
          (let entries = sort (if show_all then listed
                               else filter (\<lambda>n. \<not> startswith n ''.'') listed) in
           if long_format then
             (let lines = map (ls_long_line e fs target) entries in
              (Inr (join_with ''\<newline>'' lines @ (if lines \<noteq> [] then ''\<newline>'' else []),
                    [], Some cwd, 0), fs))
           else (Inr (join_with ''  '' entries @ ''\<newline>'', [], Some cwd, 0), fs)))"

subsection \<open>cd\<close>

definition cd :: "env \<Rightarrow> string list \<Rightarrow> string \<Rightarrow> node \<Rightarrow> outcome" where
  "cd e args cwd fs =
     (let new = (if args = [] then home_dir e else path_resolve (hd args) cwd) in
      if \<not> path_exists e fs new then
        (case py_nth args 0 of
           Inl x \<Rightarrow> (Inl x, fs)
         | Inr a \<Rightarrow> (Inr ([], ''cd: '' @ a @ '': No such file or directory\<newline>'', Some cwd, 1), fs))
      else if \<not> path_isdir e fs new then
        (case py_nth args 0 of
           Inl x \<Rightarrow> (Inl x, fs)
         | Inr a \<Rightarrow> (Inr ([], ''cd: '' @ a @ '': Not a directory\<newline>'', Some cwd, 1), fs))
      else (Inr ([], [], Some new, 0), fs))"

subsection \<open>mkdir, rm, rmdir\<close>

fun mkdir_loop :: "env \<Rightarrow> string \<Rightarrow> string list \<Rightarrow> node \<Rightarrow> outcome" where
  "mkdir_loop e cwd [] fs = (Inr ([], [], Some cwd, 0), fs)"
| "mkdir_loop e cwd (a # as) fs =
     (case os_makedirs e fs (path_resolve a cwd) False of
        Inr fs' \<Rightarrow> mkdir_loop e cwd as fs'
      | Inl x \<Rightarrow>
          if is_FileExistsError x then
            (Inr ([], ''mkdir: cannot create directory '' @ [CHR 0x27] @ a @ [CHR 0x27]
                      @ '': File exists\<newline>'', Some cwd, 1), fs)
          else (Inl x, fs))"

definition mkdir :: "env \<Rightarrow> string list \<Rightarrow> string \<Rightarrow> node \<Rightarrow> outcome" where
  "mkdir e args cwd fs =
     (if args = [] then (Inr ([], ''mkdir: missing operand\<newline>'', Some cwd, 2), fs)
      else mkdir_loop e cwd args fs)"

definition rm_flag :: "string \<Rightarrow> bool" where
  "rm_flag a = (a = ''-r'' \<or> a = ''-rf'' \<or> a = ''-fr'')"

fun rm_loop :: "env \<Rightarrow> string \<Rightarrow> bool \<Rightarrow> string list \<Rightarrow> node \<Rightarrow> outcome" where
  "rm_loop e cwd recursive [] fs = (Inr ([], [], Some cwd, 0), fs)"
| "rm_loop e cwd recursive (p # ps) fs =
     (let rp = path_resolve p cwd in
      if \<not> path_exists e fs rp then
        (Inr ([], ''rm: cannot remove '' @ [CHR 0x27] @ p @ [CHR 0x27]
                  @ '': No such file or directory\<newline>'', Some cwd, 1), fs)
      else if path_isdir e fs rp \<and> \<not> recursive then
        (Inr ([], ''rm: cannot remove '' @ [CHR 0x27] @ p @ [CHR 0x27]
                  @ '': Is a directory\<newline>'', Some cwd, 1), fs)
      else if path_isdir e fs rp then
        (case shutil_rmtree e fs rp of
           (Some x, fs') \<Rightarrow> (Inl x, fs')
         | (None, fs') \<Rightarrow> rm_loop e cwd recursive ps fs')
      else
        (case os_remove e fs rp of
           Inl x \<Rightarrow> (Inl x, fs)
         | Inr fs' \<Rightarrow> rm_loop e cwd recursive ps fs'))"

definition rm :: "env \<Rightarrow> string list \<Rightarrow> string \<Rightarrow> node \<Rightarrow> outcome" where
  "rm e args cwd fs =
     (if args = [] then (Inr ([], ''rm: missing operand\<newline>'', Some cwd, 2), fs)
      else let recursive = (\<exists>a \<in> set args. rm_flag a);
               paths = filter (\<lambda>a. \<not> rm_flag a) args in
           if paths = [] then (Inr ([], ''rm: missing path\<newline>'', Some cwd, 2), fs)
           else rm_loop e cwd recursive paths fs)"

fun rmdir_loop :: "env \<Rightarrow> string \<Rightarrow> string list \<Rightarrow> node \<Rightarrow> outcome" where
  "rmdir_loop e cwd [] fs = (Inr ([], [], Some cwd, 0), fs)"
| "rmdir_loop e cwd (a # as) fs =
     (let path = path_resolve a cwd in
      if \<not> path_exists e fs path then
        (Inr ([], ''rmdir: failed to remove '' @ [CHR 0x27] @ a @ [CHR 0x27]
                  @ '': No such file or directory\<newline>'', Some cwd, 1), fs)
      else if \<not> path_isdir e fs path then
        (Inr ([], ''rmdir: failed to remove '' @ [CHR 0x27] @ a @ [CHR 0x27]
                  @ '': Not a directory\<newline>'', Some cwd, 1), fs)
      else case os_rmdir e fs path of
             Inr fs' \<Rightarrow> rmdir_loop e cwd as fs'
           | Inl x \<Rightarrow>
               if is_OSError x then
                 (Inr ([], ''rmdir: failed to remove '' @ [CHR 0x27] @ a @ [CHR 0x27]
                           @ '': Directory not empty\<newline>'', Some cwd, 1), fs)
               else (Inl x, fs))"

definition rmdir :: "env \<Rightarrow> string list \<Rightarrow> string \<Rightarrow> node \<Rightarrow> outcome" where
  "rmdir e args cwd fs =
     (if args = [] then (Inr ([], ''rmdir: missing operand\<newline>'', Some cwd, 2), fs)
      else rmdir_loop e cwd args fs)"

subsection \<open>echo\<close>

definition echo_redirect ::
  "env \<Rightarrow> string list \<Rightarrow> string \<Rightarrow> node \<Rightarrow> string \<Rightarrow> string \<Rightarrow> outcome" where
  "echo_redirect e args cwd fs tok mode =
     (let idx = index_of tok args;
          text = join_with '' '' (take idx args) in
      case py_nth args (idx + 1) of
        Inl x \<Rightarrow> (Inr ([], ''echo: redirection error: '' @ exn_str x @ ''\<newline>'', Some cwd, 1), fs)
      | Inr a \<Rightarrow>
          (case write_file e fs (path_resolve a cwd) mode (text @ ''\<newline>'') of
             (Some x, fs') \<Rightarrow>
               (Inr ([], ''echo: redirection error: '' @ exn_str x @ ''\<newline>'', Some cwd, 1), fs')
           | (None, fs') \<Rightarrow> (Inr ([], [], Some cwd, 0), fs')))"

definition echo :: "env \<Rightarrow> string list \<Rightarrow> string \<Rightarrow> node \<Rightarrow> outcome" where
  "echo e args cwd fs =
     (if ''>'' \<in> set args then echo_redirect e args cwd fs ''>'' ''w''
      else if ''>>'' \<in> set args then echo_redirect e args cwd fs ''>>'' ''a''
      else (Inr (join_with '' '' args @ ''\<newline>'', [], Some cwd, 0), fs))"

subsection \<open>cat\<close>

text \<open>
  \<open>cat_read\<close> is the loop that reads the source files: a result when a source is missing or
  a directory, an exception when a read fails, the contents otherwise.
\<close>

datatype 'a loop_exit = Returned result | Raised exn | Done 'a

fun cat_read :: "env \<Rightarrow> string \<Rightarrow> node \<Rightarrow> string list \<Rightarrow> string list \<Rightarrow> string list loop_exit" where
  "cat_read e cwd fs [] acc = Done acc"
| "cat_read e cwd fs (a # as) acc =
     (let p = path_resolve a cwd in
      if \<not> path_exists e fs p then
        Returned ([], ''cat: '' @ a @ '': No such file or directory\<newline>'', Some cwd, 1)
      else if path_isdir e fs p then
        Returned ([], ''cat: '' @ a @ '': Is a directory\<newline>'', Some cwd, 1)
      else case read_text e fs p of
             Inl x \<Rightarrow> Raised x
           | Inr c \<Rightarrow> cat_read e cwd fs as (acc @ [c]))"

definition cat_heredoc :: "string list \<Rightarrow> string \<Rightarrow> result" where
  "cat_heredoc args cwd =
     (let heredoc_idx = index_of ''<<'' args;
          redirect = (if ''>>'' \<in> set args then Some (index_of ''>>'' args, ''a'')
                      else if ''>'' \<in> set args then Some (index_of ''>'' args, ''w'')
                      else None) in
      case redirect of
        None \<Rightarrow> ([], ''cat: invalid syntax, use: cat [>>|>] file << EOF\<newline>'', Some cwd, 2)
      | Some (redirect_idx, mode) \<Rightarrow>
          if heredoc_idx < redirect_idx then
            ([], ''cat: invalid syntax, use: cat [>>|>] file << EOF\<newline>'', Some cwd, 2)
          else case py_nth args (redirect_idx + 1) of
            Inl x \<Rightarrow> ([], ''cat: heredoc error: '' @ exn_str x @ ''\<newline>'', Some cwd, 1)
          | Inr a \<Rightarrow>
              (let filepath = path_resolve a cwd;
                   delimiter = (if heredoc_idx + 1 < length args then args ! (heredoc_idx + 1)
                                else ''EOF'') in
               (''HEREDOC_MODE:'' @ mode @ '':'' @ filepath @ '':'' @ delimiter, [], Some cwd, 0)))"

definition cat_redirect ::
  "env \<Rightarrow> string list \<Rightarrow> string \<Rightarrow> node \<Rightarrow> string \<Rightarrow> string \<Rightarrow> string \<Rightarrow> outcome" where
  "cat_redirect e args cwd fs tok mode what =
     (let idx = index_of tok args in
      case py_nth args (idx + 1) of
        Inl x \<Rightarrow> (Inr ([], ''cat: '' @ what @ '' error: '' @ exn_str x @ ''\<newline>'', Some cwd, 1), fs)
      | Inr a \<Rightarrow>
          (let filepath = path_resolve a cwd in
           if idx = 0 then (Inr (''INPUT_MODE:'' @ mode @ '':'' @ filepath, [], Some cwd, 0), fs)
           else case cat_read e cwd fs (take idx args) [] of
             Returned r \<Rightarrow> (Inr r, fs)
           | Raised x \<Rightarrow>
               (Inr ([], ''cat: '' @ what @ '' error: '' @ exn_str x @ ''\<newline>'', Some cwd, 1), fs)
           | Done content_parts \<Rightarrow>
               (case write_file e fs filepath mode (join_with ''\<newline>'' content_parts) of
                  (Some x, fs') \<Rightarrow>
                    (Inr ([], ''cat: '' @ what @ '' error: '' @ exn_str x @ ''\<newline>'', Some cwd, 1),
                     fs')
                | (None, fs') \<Rightarrow> (Inr ([], [], Some cwd, 0), fs'))))"

definition cat :: "env \<Rightarrow> string list \<Rightarrow> string \<Rightarrow> node \<Rightarrow> outcome" where
  "cat e args cwd fs =
     (if ''<<'' \<in> set args then (Inr (cat_heredoc args cwd), fs)
      else if ''>>'' \<in> set args then cat_redirect e args cwd fs ''>>'' ''a'' ''append''
      else if ''>'' \<in> set args then cat_redirect e args cwd fs ''>'' ''w'' ''write''
      else if args = [] then (Inr ([], ''cat: missing file operand\<newline>'', Some cwd, 2), fs)
      else case cat_read e cwd fs args [] of
             Returned r \<Rightarrow> (Inr r, fs)
           | Raised x \<Rightarrow> (Inl x, fs)
           | Done out_lines \<Rightarrow> (Inr (join_with ''\<newline>'' out_lines, [], Some cwd, 0), fs))"

subsection \<open>touch, mv, cp\<close>

fun touch_loop :: "env \<Rightarrow> string \<Rightarrow> string list \<Rightarrow> node \<Rightarrow> outcome" where
  "touch_loop e cwd [] fs = (Inr ([], [], Some cwd, 0), fs)"
| "touch_loop e cwd (a # as) fs =
     (let p = path_resolve a cwd;
          dirp = dirname p in
      case (if dirp \<noteq> [] \<and> \<not> path_exists e fs dirp then os_makedirs e fs dirp True
            else Inr fs) of
        Inl x \<Rightarrow> (Inl x, fs)
      | Inr fs1 \<Rightarrow>
          (case write_file e fs1 p ''a'' [] of
             (Some x, fs2) \<Rightarrow> (Inl x, fs2)
           | (None, fs2) \<Rightarrow> touch_loop e cwd as fs2))"

definition touch :: "env \<Rightarrow> string list \<Rightarrow> string \<Rightarrow> node \<Rightarrow> outcome" where
  "touch e args cwd fs =
     (if args = [] then (Inr ([], ''touch: missing file operand\<newline>'', Some cwd, 2), fs)
      else touch_loop e cwd args fs)"

fun mv_loop :: "env \<Rightarrow> string \<Rightarrow> string \<Rightarrow> string list \<Rightarrow> node \<Rightarrow> outcome" where
  "mv_loop e cwd dest [] fs = (Inr ([], [], Some cwd, 0), fs)"
| "mv_loop e cwd dest (s # ss) fs =
     (if \<not> path_exists e fs s then
        (Inr ([], ''mv: cannot stat '' @ [CHR 0x27] @ s @ [CHR 0x27]
                  @ '': No such file or directory\<newline>'', Some cwd, 1), fs)
      else case shutil_move e fs s
                  (if path_isdir e fs dest then path_join dest (basename s) else dest) of
             Inl x \<Rightarrow> (Inr ([], ''mv error: '' @ exn_str x @ ''\<newline>'', Some cwd, 1), fs)
           | Inr fs' \<Rightarrow> mv_loop e cwd dest ss fs')"

definition mv :: "env \<Rightarrow> string list \<Rightarrow> string \<Rightarrow> node \<Rightarrow> outcome" where
  "mv e args cwd fs =
     (if length args < 2 then (Inr ([], ''mv: missing file operands\<newline>'', Some cwd, 2), fs)
      else let srcs = map (\<lambda>a. path_resolve a cwd) (butlast args);
               dest = path_resolve (last args) cwd in
           if length srcs > 1 \<and> \<not> path_isdir e fs dest then
             (Inr ([], ''mv: target is not a directory\<newline>'', Some cwd, 1), fs)
           else mv_loop e cwd dest srcs fs)"

fun cp_loop :: "env \<Rightarrow> string \<Rightarrow> bool \<Rightarrow> string \<Rightarrow> string list \<Rightarrow> node \<Rightarrow> outcome" where
  "cp_loop e cwd recursive dest [] fs = (Inr ([], [], Some cwd, 0), fs)"
| "cp_loop e cwd recursive dest (s # ss) fs =
     (if \<not> path_exists e fs s then
        (Inr ([], ''cp: cannot stat '' @ [CHR 0x27] @ s @ [CHR 0x27]
                  @ '': No such file or directory\<newline>'', Some cwd, 1), fs)
      else if path_isdir e fs s \<and> \<not> recursive then
        (Inr ([], ''cp: -r not specified; omitting directory '' @ [CHR 0x27] @ s @ [CHR 0x27]
                  @ ''\<newline>'', Some cwd, 1), fs)
      else case (if path_isdir e fs s
                 then shutil_copytree e fs s (path_join dest (basename s))
                 else shutil_copy2 e fs s
                        (if path_isdir e fs dest then path_join dest (basename s) else dest)) of
             Inl x \<Rightarrow> (Inr ([], ''cp error: '' @ exn_str x @ ''\<newline>'', Some cwd, 1), fs)
           | Inr fs' \<Rightarrow> cp_loop e cwd recursive dest ss fs')"

definition cp :: "env \<Rightarrow> string list \<Rightarrow> string \<Rightarrow> node \<Rightarrow> outcome" where
  "cp e args cwd fs =
     (if length args < 2 then (Inr ([], ''cp: missing file operands\<newline>'', Some cwd, 2), fs)
      else let recursive = (''-r'' \<in> set args);
               files = filter (\<lambda>a. a \<noteq> ''-r'') args in
           if length files < 2 then
             (Inr ([], ''cp: missing destination file operand after source\<newline>'', Some cwd, 2), fs)
           else let srcs = map (\<lambda>a. path_resolve a cwd) (butlast files);
                    dest = path_resolve (last files) cwd in
                if length srcs > 1 \<and> \<not> path_isdir e fs dest then
                  (Inr ([], ''cp: target is not a directory\<newline>'', Some cwd, 1), fs)
                else cp_loop e cwd recursive dest srcs fs)"

subsection \<open>System metrics: cpu, mem, ps, df, uptime\<close>

definition cpu :: "env \<Rightarrow> node \<Rightarrow> outcome" where
  "cpu e fs = (Inr (''CPU: '' @ cpu_percent e @ ''%\<newline>'', [], None, 0), fs)"

definition mem :: "env \<Rightarrow> node \<Rightarrow> outcome" where
  "mem e fs =
     (Inr (''Memory: '' @ str_of_int (mem_used e) @ ''/'' @ str_of_int (mem_total e)
           @ '' bytes ('' @ mem_percent e @ ''%)\<newline>'', [], None, 0), fs)"

text \<open>
  psutil reports \<open>None\<close> for a figure of a process it may not inspect; slicing or formatting
  \<open>None\<close> raises \<open>TypeError\<close>.
\<close>

definition ps_line :: "proc_info \<Rightarrow> exn + string" where
  "ps_line p =
     (case p_name p of
        None \<Rightarrow> Inl (TypeError ([CHR 0x27] @ ''NoneType'' @ [CHR 0x27]
                                  @ '' object is not subscriptable''))
      | Some name \<Rightarrow>
          (case p_cpu p of
             None \<Rightarrow> Inl (TypeError ''unsupported format string passed to NoneType.__format__'')
           | Some c \<Rightarrow>
               (case p_mem p of
                  None \<Rightarrow>
                    Inl (TypeError ''unsupported format string passed to NoneType.__format__'')
                | Some m \<Rightarrow>
                    Inr (rjust 6 (str_of_int (p_pid p)) @ '' '' @ ljust 20 (py_take 20 name)
                         @ '' CPU%:'' @ c @ '' MEM%:'' @ m))))"

fun ps_lines :: "proc_info list \<Rightarrow> string list \<Rightarrow> exn + string list" where
  "ps_lines [] acc = Inr acc"
| "ps_lines (p # rest) acc =
     (case ps_line p of Inl x \<Rightarrow> Inl x | Inr l \<Rightarrow> ps_lines rest (acc @ [l]))"

definition ps :: "env \<Rightarrow> string list \<Rightarrow> node \<Rightarrow> outcome" where
  "ps e args fs =
     (case ps_lines (procs e) [] of
        Inl x \<Rightarrow> (Inl x, fs)
      | Inr lns \<Rightarrow> (Inr (join_with ''\<newline>'' (take 200 (sort lns)) @ ''\<newline>'', [], None, 0), fs))"

definition df :: "env \<Rightarrow> string list \<Rightarrow> string \<Rightarrow> node \<Rightarrow> outcome" where
  "df e args cwd fs =
     (Inr (''Filesystem     Size      Used     Avail    Use%\<newline>''
           @ ''root      '' @ rjust 10 (str_of_int (disk_total e)) @ '' ''
           @ rjust 10 (str_of_int (disk_used e)) @ '' '' @ rjust 10 (str_of_int (disk_free e))
           @ ''  '' @ disk_percent e @ ''%\<newline>'', [], Some cwd, 0), fs)"

definition uptime :: "env \<Rightarrow> node \<Rightarrow> outcome" where
  "uptime e fs =
     (let hours = uptime_seconds e div 3600;
          remainder = uptime_seconds e mod 3600;
          minutes = remainder div 60 in
      (Inr (''up '' @ str_of_int (uptime_days e) @ '' days, '' @ str_of_nat hours @ '':''
            @ zfill2 (int minutes) @ ''\<newline>'', [], None, 0), fs))"

subsection \<open>Reading numbers\<close>

text \<open>
  \<open>py_int\<close> is \<open>int(s)\<close> and \<open>py_int_oct\<close> is \<open>int(s, 8)\<close>, for ASCII digits: surrounding
  whitespace and a sign are allowed, digits may be grouped by single underscores.
\<close>

definition is_digit :: "nat \<Rightarrow> char \<Rightarrow> bool" where
  "is_digit base c = (48 \<le> (of_char c :: nat) \<and> (of_char c :: nat) < 48 + base)"

definition digit_groups_ok :: "nat \<Rightarrow> string \<Rightarrow> bool" where
  "digit_groups_ok base body =
     (body \<noteq> [] \<and> list_all (\<lambda>c. is_digit base c \<or> c = CHR ''_'') body
      \<and> hd body \<noteq> CHR ''_'' \<and> last body \<noteq> CHR ''_'' \<and> \<not> is_substring ''__'' body)"

definition digits_val :: "nat \<Rightarrow> string \<Rightarrow> nat" where
  "digits_val base ds = foldl (\<lambda>v c. v * base + ((of_char c :: nat) - 48)) 0 ds"

definition split_sign :: "string \<Rightarrow> bool \<times> string" where
  "split_sign t =
     (case t of
        [] \<Rightarrow> (False, [])
      | c # r \<Rightarrow> if c = CHR ''-'' then (True, r) else if c = CHR ''+'' then (False, r)
                 else (False, t))"

definition py_int :: "string \<Rightarrow> exn + int" where
  "py_int s =
     (case split_sign (py_strip s) of (neg, body) \<Rightarrow>
      let ds = filter (\<lambda>c. c \<noteq> CHR ''_'') body in
      if \<not> digit_groups_ok 10 body then
        Inl (ValueError (''invalid literal for int() with base 10: '' @ py_repr s))
      else if length ds > 4300 then
        Inl (ValueError ''Exceeds the limit (4300 digits) for integer string conversion'')
      else Inr (if neg then - int (digits_val 10 ds) else int (digits_val 10 ds)))"

definition py_int_oct :: "string \<Rightarrow> exn + int" where
  "py_int_oct s =
     (case split_sign (py_strip s) of (neg, body) \<Rightarrow>
      let body' = (if startswith body ''0o'' \<or> startswith body ''0O''
                   then (if startswith (drop 2 body) ''_'' then drop 3 body else drop 2 body)
                   else body);
          ds = filter (\<lambda>c. c \<noteq> CHR ''_'') body' in
      if \<not> digit_groups_ok 8 body' then
        Inl (ValueError (''invalid literal for int() with base 8: '' @ py_repr s))
      else Inr (if neg then - int (digits_val 8 ds) else int (digits_val 8 ds)))"

subsection \<open>head, tail, wc, grep\<close>

fun count_args :: "string list \<Rightarrow> int \<Rightarrow> string option \<Rightarrow> exn + (int \<times> string option)" where
  "count_args [] n f = Inr (n, f)"
| "count_args [a] n f = Inr (n, Some a)"
| "count_args (a # b # rest) n f =
     (if a = ''-n'' then
        (case py_int b of Inl x \<Rightarrow> Inl x | Inr v \<Rightarrow> count_args rest v f)
      else count_args (b # rest) n (Some a))"

definition head :: "env \<Rightarrow> string list \<Rightarrow> string \<Rightarrow> node \<Rightarrow> outcome" where
  "head e args cwd fs =
     (case count_args args 10 None of
        Inl x \<Rightarrow> (Inr ([], ''head: invalid number of lines\<newline>'', Some cwd, 1), fs)
      | Inr (lines, f) \<Rightarrow>
          (case f of
             None \<Rightarrow> (Inr ([], ''head: missing file operand\<newline>'', Some cwd, 2), fs)
           | Some filepath \<Rightarrow>
               if filepath = [] then
                 (Inr ([], ''head: missing file operand\<newline>'', Some cwd, 2), fs)
               else let p = path_resolve filepath cwd in
                 if \<not> path_exists e fs p then
                   (Inr ([], ''head: '' @ filepath @ '': No such file or directory\<newline>'',
                         Some cwd, 1), fs)
                 else if path_isdir e fs p then
                   (Inr ([], ''head: '' @ filepath @ '': Is a directory\<newline>'', Some cwd, 1), fs)
                 else case read_text e fs p of
                        Inl x \<Rightarrow> (Inl x, fs)
                      | Inr c \<Rightarrow>
                          (Inr (concat (take (nat lines) (py_lines c)), [], Some cwd, 0), fs)))"

text \<open>\<open>last_lines xs n\<close> is the slice \<open>xs[-n:]\<close>.\<close>

definition last_lines :: "'a list \<Rightarrow> int \<Rightarrow> 'a list" where
  "last_lines xs n =
     (if n > 0 then drop (length xs - nat n) xs
      else drop (nat (- n)) xs)"

definition tail :: "env \<Rightarrow> string list \<Rightarrow> string \<Rightarrow> node \<Rightarrow> outcome" where
  "tail e args cwd fs =
     (case count_args args 10 None of
        Inl x \<Rightarrow> (Inr ([], ''tail: invalid number of lines\<newline>'', Some cwd, 1), fs)
      | Inr (lines, f) \<Rightarrow>
          (case f of
             None \<Rightarrow> (Inr ([], ''tail: missing file operand\<newline>'', Some cwd, 2), fs)
           | Some filepath \<Rightarrow>
               if filepath = [] then
                 (Inr ([], ''tail: missing file operand\<newline>'', Some cwd, 2), fs)
               else let p = path_resolve filepath cwd in
                 if \<not> path_exists e fs p then
                   (Inr ([], ''tail: '' @ filepath @ '': No such file or directory\<newline>'',
                         Some cwd, 1), fs)
                 else if path_isdir e fs p then
                   (Inr ([], ''tail: '' @ filepath @ '': Is a directory\<newline>'', Some cwd, 1), fs)
                 else case read_text e fs p of
                        Inl x \<Rightarrow> (Inl x, fs)
                      | Inr c \<Rightarrow>
                          (Inr (concat (last_lines (py_lines c) lines), [], Some cwd, 0), fs)))"

fun wc_loop :: "env \<Rightarrow> string \<Rightarrow> node \<Rightarrow> string list \<Rightarrow> string list \<Rightarrow> string list loop_exit" where
  "wc_loop e cwd fs [] acc = Done acc"
| "wc_loop e cwd fs (filepath # rest) acc =
     (let p = path_resolve filepath cwd in
      if \<not> path_exists e fs p then
        Returned ([], ''wc: '' @ filepath @ '': No such file or directory\<newline>'', Some cwd, 1)
      else if path_isdir e fs p then
        Returned ([], ''wc: '' @ filepath @ '': Is a directory\<newline>'', Some cwd, 1)
      else case read_text e fs p of
             Inl x \<Rightarrow> Raised x
           | Inr content \<Rightarrow>
               wc_loop e cwd fs rest
                 (acc @ [rjust 7 (str_of_nat (length (filter (\<lambda>c. c = CHR 0x0A) content)))
                         @ '' '' @ rjust 7 (str_of_nat (length (split_ws [] content)))
                         @ '' '' @ rjust 7 (str_of_nat (py_len content))
                         @ '' '' @ filepath]))"

definition wc :: "env \<Rightarrow> string list \<Rightarrow> string \<Rightarrow> node \<Rightarrow> outcome" where
  "wc e args cwd fs =
     (if args = [] then (Inr ([], ''wc: missing file operand\<newline>'', Some cwd, 2), fs)
      else case wc_loop e cwd fs args [] of
             Returned r \<Rightarrow> (Inr r, fs)
           | Raised x \<Rightarrow> (Inl x, fs)
           | Done results \<Rightarrow>
               (Inr (join_with ''\<newline>'' results @ ''\<newline>'', [], Some cwd, 0), fs))"

text \<open>
  \<open>grep_matches pattern n lines\<close> is the loop over \<open>enumerate(f, n)\<close>: a line (with its
  terminator) matches when the pattern occurs in it, and is reported with its number and
  without its trailing whitespace.
\<close>

fun grep_matches :: "string \<Rightarrow> nat \<Rightarrow> string list \<Rightarrow> string list" where
  "grep_matches pattern n [] = []"
| "grep_matches pattern n (line # rest) =
     (if is_substring pattern line
      then (str_of_nat n @ '':'' @ rstrip line) # grep_matches pattern (Suc n) rest
      else grep_matches pattern (Suc n) rest)"

definition grep :: "env \<Rightarrow> string list \<Rightarrow> string \<Rightarrow> node \<Rightarrow> outcome" where
  "grep e args cwd fs =
     (if length args < 2 then
        (Inr ([], ''grep: missing pattern or file\<newline>'', Some cwd, 2), fs)
      else let pattern = args ! 0;
               filepath = args ! 1;
               p = path_resolve filepath cwd in
        if \<not> path_exists e fs p then
          (Inr ([], ''grep: '' @ filepath @ '': No such file or directory\<newline>'', Some cwd, 1), fs)
        else if path_isdir e fs p then
          (Inr ([], ''grep: '' @ filepath @ '': Is a directory\<newline>'', Some cwd, 1), fs)
        else case read_text e fs p of
               Inl x \<Rightarrow> (Inl x, fs)
             | Inr c \<Rightarrow>
                 (let matches = grep_matches pattern 1 (py_lines c) in
                  if matches \<noteq> [] then
                    (Inr (join_with ''\<newline>'' matches @ ''\<newline>'', [], Some cwd, 0), fs)
                  else (Inr ([], [], Some cwd, 1), fs)))"

subsection \<open>find, tree, du\<close>

fun find_args :: "string list \<Rightarrow> string \<Rightarrow> string \<times> string option \<Rightarrow> string \<times> string option" where
  "find_args [] cwd st = st"
| "find_args [a] cwd (start_path, name_pattern) =
     (if \<not> startswith a ''-'' then (path_resolve a cwd, name_pattern)
      else (start_path, name_pattern))"
| "find_args (a # b # rest) cwd (start_path, name_pattern) =
     (if a = ''-name'' then find_args rest cwd (start_path, Some b)
      else if \<not> startswith a ''-'' then find_args (b # rest) cwd (path_resolve a cwd, name_pattern)
      else find_args (b # rest) cwd (start_path, name_pattern))"

definition is_dir_node :: "node \<Rightarrow> bool" where
  "is_dir_node n = (case n of Dir _ \<Rightarrow> True | File _ \<Rightarrow> False)"

text \<open>
  \<open>os.walk\<close>, top down: for every directory its path, the names of its subdirectories and
  the names of its files.
\<close>

fun walk_tree :: "string \<Rightarrow> node \<Rightarrow> (string \<times> string list \<times> string list) list" where
  "walk_tree root (File c) = []"
| "walk_tree root (Dir es) =
     (root, map fst (filter (\<lambda>(n, c). is_dir_node c) es),
            map fst (filter (\<lambda>(n, c). \<not> is_dir_node c) es))
     # concat (map (\<lambda>(n, c). walk_tree (path_join root n) c) es)"

definition os_walk :: "env \<Rightarrow> node \<Rightarrow> string \<Rightarrow> (string \<times> string list \<times> string list) list" where
  "os_walk e fs start = (case os_lookup e fs start of None \<Rightarrow> [] | Some n \<Rightarrow> walk_tree start n)"

definition find_cmd :: "env \<Rightarrow> string list \<Rightarrow> string \<Rightarrow> node \<Rightarrow> outcome" where
  "find_cmd e args cwd fs =
     (case find_args args cwd (cwd, None) of (start_path, name_pattern) \<Rightarrow>
      if \<not> path_exists e fs start_path then
        (Inr ([], ''find: '' @ [CHR 0x27] @ start_path @ [CHR 0x27]
                  @ '': No such file or directory\<newline>'', Some cwd, 1), fs)
      else
        let results = concat (map (\<lambda>(root, dirs, files).
                         map (path_join root)
                           (filter (\<lambda>name. case name_pattern of None \<Rightarrow> True
                                            | Some pat \<Rightarrow> is_substring pat name)
                              (files @ dirs)))
                       (os_walk e fs start_path)) in
        (Inr (join_with ''\<newline>'' results @ (if results \<noteq> [] then ''\<newline>'' else []),
              [], Some cwd, 0), fs))"

definition branch_last :: string where
  "branch_last = [CHR 0xE2, CHR 0x94, CHR 0x94, CHR 0xE2, CHR 0x94, CHR 0x80,
                  CHR 0xE2, CHR 0x94, CHR 0x80, CHR 0x20]"

definition branch_mid :: string where
  "branch_mid = [CHR 0xE2, CHR 0x94, CHR 0x9C, CHR 0xE2, CHR 0x94, CHR 0x80,
                 CHR 0xE2, CHR 0x94, CHR 0x80, CHR 0x20]"

definition branch_bar :: string where
  "branch_bar = [CHR 0xE2, CHR 0x94, CHR 0x82, CHR 0x20, CHR 0x20, CHR 0x20]"

text \<open>
  \<open>build_tree\<close> draws the entries of a directory in sorted order and descends into
  subdirectories. The node of the directory stands for \<open>os.listdir\<close> and \<open>os.path.isdir\<close>
  on the paths below it.
\<close>

lemma sorted_entry_mem:
  "i < length es \<Longrightarrow> sort_key fst es ! i = (a, c) \<Longrightarrow> (a, c) \<in> set es"
proof -
  assume "i < length es" "sort_key fst es ! i = (a, c)"
  then have "(a, c) \<in> set (sort_key fst es)" by (metis length_sort nth_mem)
  then show ?thesis by simp
qed

lemma entry_size: "(a, c) \<in> set es \<Longrightarrow> size c < Suc (size_list (size_prod (\<lambda>_. 0) size) es)"
  by (induction es) auto

function build_tree :: "node \<Rightarrow> string \<Rightarrow> string list" where
  "build_tree (File c) prefix = []"
| "build_tree (Dir es) prefix =
     concat (map (\<lambda>(i, entry, child).
               (prefix @ (if Suc i = length es then branch_last else branch_mid) @ entry)
               # (if is_dir_node child
                  then build_tree child
                         (prefix @ (if Suc i = length es then ''    '' else branch_bar))
                  else []))
             (enumerate 0 (sort_key fst es)))"
  by pat_completeness auto
termination
  by (relation "measure (\<lambda>(n, p). size n)")
     (auto simp: in_set_enumerate_eq dest!: sorted_entry_mem entry_size)

definition tree :: "env \<Rightarrow> string list \<Rightarrow> string \<Rightarrow> node \<Rightarrow> outcome" where
  "tree e args cwd fs =
     (let start_path = (if args \<noteq> [] then path_resolve (hd args) cwd else cwd) in
      if \<not> path_exists e fs start_path then
        (case py_nth args 0 of
           Inl x \<Rightarrow> (Inl x, fs)
         | Inr a \<Rightarrow>
             (Inr ([], ''tree: '' @ a @ '': No such file or directory\<newline>'', Some cwd, 1), fs))
      else case os_lookup e fs start_path of
             Some (Dir es) \<Rightarrow>
               (Inr (join_with ''\<newline>'' (start_path # build_tree (Dir es) []) @ ''\<newline>'',
                     [], Some cwd, 0), fs)
           | _ \<Rightarrow> (Inl (os_error 20 start_path), fs))"

definition du :: "env \<Rightarrow> string list \<Rightarrow> string \<Rightarrow> node \<Rightarrow> outcome" where
  "du e args cwd fs =
     (let target = (if args \<noteq> [] then path_resolve (hd args) cwd else cwd) in
      if \<not> path_exists e fs target then
        (case py_nth args 0 of
           Inl x \<Rightarrow> (Inl x, fs)
         | Inr a \<Rightarrow>
             (Inr ([], ''du: '' @ a @ '': No such file or directory\<newline>'', Some cwd, 1), fs))
      else if path_isfile e fs target then
        (case os_getsize e fs target of
           Inl x \<Rightarrow> (Inl x, fs)
         | Inr sz \<Rightarrow> (Inr (str_of_nat sz @ [CHR 0x09] @ target @ ''\<newline>'', [], Some cwd, 0), fs))
      else
        let total = sum_list (concat (map (\<lambda>(root, dirs, files).
                        map (\<lambda>f. case os_getsize e fs (path_join root f) of
                                    Inl _ \<Rightarrow> 0 | Inr sz \<Rightarrow> sz) files)
                      (os_walk e fs target))) in
        (Inr (str_of_nat total @ [CHR 0x09] @ target @ ''\<newline>'', [], Some cwd, 0), fs))"

subsection \<open>stat, chmod, date, whoami, hostname\<close>

definition stat :: "env \<Rightarrow> string list \<Rightarrow> string \<Rightarrow> node \<Rightarrow> outcome" where
  "stat e args cwd fs =
     (if args = [] then (Inr ([], ''stat: missing file operand\<newline>'', Some cwd, 2), fs)
      else let filepath = hd args;
               p = path_resolve filepath cwd in
        if \<not> path_exists e fs p then
          (Inr ([], ''stat: '' @ filepath @ '': No such file or directory\<newline>'', Some cwd, 1), fs)
        else case os_getsize e fs p of
               Inl x \<Rightarrow> (Inl x, fs)
             | Inr sz \<Rightarrow>
                 (Inr (''  File: '' @ filepath @ ''\<newline>''
                       @ ''  Size: '' @ str_of_nat sz @ ''\<newline>''
                       @ ''  Mode: '' @ stat_mode e p @ ''\<newline>''
                       @ ''Access: '' @ stat_atime e p @ ''\<newline>''
                       @ ''Modify: '' @ stat_mtime e p @ ''\<newline>''
                       @ ''Change: '' @ stat_ctime e p @ ''\<newline>'', [], Some cwd, 0), fs))"

definition chmod :: "env \<Rightarrow> string list \<Rightarrow> string \<Rightarrow> node \<Rightarrow> outcome" where
  "chmod e args cwd fs =
     (if length args < 2 then (Inr ([], ''chmod: missing operands\<newline>'', Some cwd, 2), fs)
      else let mode_str = args ! 0;
               filepath = args ! 1 in
        case py_int_oct mode_str of
          Inl x \<Rightarrow>
            (Inr ([], ''chmod: invalid mode: '' @ [CHR 0x27] @ mode_str @ [CHR 0x27] @ ''\<newline>'',
                  Some cwd, 1), fs)
        | Inr mode \<Rightarrow>
            (let p = path_resolve filepath cwd in
             if \<not> path_exists e fs p then
               (Inr ([], ''chmod: '' @ filepath @ '': No such file or directory\<newline>'',
                     Some cwd, 1), fs)
             else case os_chmod e fs p mode of
                    Inl x \<Rightarrow> (Inr ([], ''chmod: error: '' @ exn_str x @ ''\<newline>'', Some cwd, 1), fs)
                  | Inr fs' \<Rightarrow> (Inr ([], [], Some cwd, 0), fs')))"

definition date :: "env \<Rightarrow> string list \<Rightarrow> string \<Rightarrow> node \<Rightarrow> outcome" where
  "date e args cwd fs = (Inr (now_text e @ ''\<newline>'', [], Some cwd, 0), fs)"

definition whoami :: "env \<Rightarrow> string \<Rightarrow> node \<Rightarrow> outcome" where
  "whoami e cwd fs =
     (case user_name e of
        Inl x \<Rightarrow> (Inl x, fs)
      | Inr u \<Rightarrow> (Inr (u @ ''\<newline>'', [], Some cwd, 0), fs))"

definition hostname :: "env \<Rightarrow> string \<Rightarrow> node \<Rightarrow> outcome" where
  "hostname e cwd fs = (Inr (host_name e @ ''\<newline>'', [], Some cwd, 0), fs)"

subsection \<open>md5sum, sha256sum\<close>

fun sum_loop ::
  "env \<Rightarrow> string \<Rightarrow> (string \<Rightarrow> string) \<Rightarrow> string \<Rightarrow> node \<Rightarrow> string list \<Rightarrow> string list
   \<Rightarrow> string list loop_exit" where
  "sum_loop e name digest cwd fs [] acc = Done acc"
| "sum_loop e name digest cwd fs (filepath # rest) acc =
     (let p = path_resolve filepath cwd in
      if \<not> path_exists e fs p then
        Returned ([], name @ '': '' @ filepath @ '': No such file or directory\<newline>'', Some cwd, 1)
      else if path_isdir e fs p then
        Returned ([], name @ '': '' @ filepath @ '': Is a directory\<newline>'', Some cwd, 1)
      else case read_bytes e fs p of
             Inl x \<Rightarrow> Raised x
           | Inr c \<Rightarrow> sum_loop e name digest cwd fs rest (acc @ [digest c @ ''  '' @ filepath]))"

definition checksum ::
  "env \<Rightarrow> string \<Rightarrow> (string \<Rightarrow> string) \<Rightarrow> string list \<Rightarrow> string \<Rightarrow> node \<Rightarrow> outcome" where
  "checksum e name digest args cwd fs =
     (if args = [] then (Inr ([], name @ '': missing file operand\<newline>'', Some cwd, 2), fs)
      else case sum_loop e name digest cwd fs args [] of
             Returned r \<Rightarrow> (Inr r, fs)
           | Raised x \<Rightarrow> (Inl x, fs)
           | Done results \<Rightarrow>
               (Inr (join_with ''\<newline>'' results @ ''\<newline>'', [], Some cwd, 0), fs))"

definition md5sum :: "env \<Rightarrow> string list \<Rightarrow> string \<Rightarrow> node \<Rightarrow> outcome" where
  "md5sum e args cwd fs = checksum e ''md5sum'' (md5_hex e) args cwd fs"

definition sha256sum :: "env \<Rightarrow> string list \<Rightarrow> string \<Rightarrow> node \<Rightarrow> outcome" where
  "sha256sum e args cwd fs = checksum e ''sha256sum'' (sha256_hex e) args cwd fs"

subsection \<open>clear, which, help\<close>

definition clear :: "string \<Rightarrow> node \<Rightarrow> outcome" where
  "clear cwd fs = (Inr (replicate 50 CHR 0x0A, [], Some cwd, 0), fs)"

definition supported_commands :: "string list" where
  "supported_commands =
     [''pwd'', ''ls'', ''cd'', ''mkdir'', ''rm'', ''rmdir'', ''cat'', ''touch'',
      ''mv'', ''cp'', ''echo'', ''cpu'', ''mem'', ''ps'', ''head'', ''tail'',
      ''wc'', ''grep'', ''find'', ''tree'', ''du'', ''df'', ''stat'', ''chmod'',
      ''date'', ''uptime'', ''whoami'', ''hostname'', ''md5sum'', ''sha256sum'',
      ''clear'', ''which'', ''help'']"

definition which :: "string list \<Rightarrow> string \<Rightarrow> node \<Rightarrow> outcome" where
  "which args cwd fs =
     (if args = [] then (Inr ([], ''which: missing command\<newline>'', Some cwd, 2), fs)
      else let cmd = hd args in
        if cmd \<in> set supported_commands
        then (Inr (''/usr/bin/'' @ cmd @ ''\<newline>'', [], Some cwd, 0), fs)
        else (Inr ([], ''which: no '' @ cmd @ '' in built-in commands\<newline>'', Some cwd, 1), fs))"

definition help_text :: string where
  "help_text = concat
     [''Supported commands:\<newline>'',
      ''File Operations:\<newline>'',
      ''  pwd                          - Print working directory\<newline>'',
      ''  ls [-l] [-a] [path]          - List directory contents\<newline>'',
      ''  cd <path>                    - Change directory\<newline>'',
      ''  mkdir <name>                 - Create directory\<newline>'',
      ''  rmdir <name>                 - Remove empty directory\<newline>'',
      ''  rm [-r] <path>               - Remove file or directory\<newline>'',
      ''  cat <file>                   - Display file contents\<newline>'',
      ''  touch <file>                 - Create empty file or update timestamp\<newline>'',
      ''  mv <src> <dest>              - Move/rename files\<newline>'',
      ''  cp [-r] <src> <dest>         - Copy files or directories\<newline>'',
      ''  head [-n num] <file>         - Display first lines of file (default 10)\<newline>'',
      ''  tail [-n num] <file>         - Display last lines of file (default 10)\<newline>'',
      ''  wc <file>                    - Count lines, words, characters\<newline>'',
      ''  grep <pattern> <file>        - Search for pattern in file\<newline>'',
      ''  find [path] [-name pattern]  - Find files matching pattern\<newline>'',
      ''\<newline>'',
      ''File Information:\<newline>'',
      ''  stat <file>                  - Display file status and metadata\<newline>'',
      ''  chmod <mode> <file>          - Change file permissions (octal)\<newline>'',
      ''  du [path]                    - Display disk usage\<newline>'',
      ''  df                           - Display filesystem disk space\<newline>'',
      ''  tree [path]                  - Display directory tree structure\<newline>'',
      ''  md5sum <file>                - Calculate MD5 checksum\<newline>'',
      ''  sha256sum <file>             - Calculate SHA256 checksum\<newline>'',
      ''\<newline>'',
      ''Text Output:\<newline>'',
      ''  echo [text]                  - Print text to stdout\<newline>'',
      ''  echo [text] > file           - Write text to file (overwrite)\<newline>'',
      ''  echo [text] >> file          - Append text to file\<newline>'',
      ''  cat <file>                   - Display file contents\<newline>'',
      ''  cat > file                   - Write input to file (empty line to end)\<newline>'',
      ''  cat >> file                  - Append input to file (empty line to end)\<newline>'',
      ''  cat >> file << EOF           - Heredoc: write until EOF is entered\<newline>'',
      ''\<newline>'',
      ''System Information:\<newline>'',
      ''  cpu                          - Display CPU usage\<newline>'',
      ''  mem                          - Display memory usage\<newline>'',
      ''  ps                           - List running processes\<newline>'',
      ''  date                         - Display current date and time\<newline>'',
      ''  uptime                       - Display system uptime\<newline>'',
      ''  whoami                       - Display current user\<newline>'',
      ''  hostname                     - Display system hostname\<newline>'',
      ''\<newline>'',
      ''Utilities:\<newline>'',
      ''  clear                        - Clear screen\<newline>'',
      ''  which <cmd>                  - Show command location\<newline>'',
      ''  help                         - Display this help message\<newline>'']"

section \<open>The interpreter\<close>

text \<open>
  The interpreter's own state: the heredoc session and the raw-input session, each absent
  (\<open>None\<close>) or a record of the fields the dictionary holds.
\<close>

record heredoc_state =
  hd_mode :: string
  hd_filepath :: string
  hd_delimiter :: string
  hd_lines :: "string list"

record input_state =
  in_mode :: string
  in_filepath :: string
  in_lines :: "string list"

record interp =
  heredoc_mode :: "heredoc_state option"
  input_mode :: "input_state option"

definition init_interp :: interp where
  "init_interp = \<lparr>heredoc_mode = None, input_mode = None\<rparr>"

text \<open>The chain of comparisons on the verb, in the order of the source.\<close>

definition verb :: "env \<Rightarrow> string \<Rightarrow> string list \<Rightarrow> string \<Rightarrow> node \<Rightarrow> outcome" where
  "verb e cmd args cwd fs =
     (if cmd = ''pwd'' then (Inr (cwd @ ''\<newline>'', [], Some cwd, 0), fs)
      else if cmd = ''ls'' then ls e args cwd fs
      else if cmd = ''cd'' then cd e args cwd fs
      else if cmd = ''mkdir'' then mkdir e args cwd fs
      else if cmd = ''rm'' then rm e args cwd fs
      else if cmd = ''rmdir'' then rmdir e args cwd fs
      else if cmd = ''cat'' then cat e args cwd fs
      else if cmd = ''touch'' then touch e args cwd fs
      else if cmd = ''mv'' then mv e args cwd fs
      else if cmd = ''cp'' then cp e args cwd fs
      else if cmd = ''echo'' then echo e args cwd fs
      else if cmd = ''cpu'' then cpu e fs
      else if cmd = ''mem'' then mem e fs
      else if cmd = ''ps'' then ps e args fs
      else if cmd = ''head'' then head e args cwd fs
      else if cmd = ''tail'' then tail e args cwd fs
      else if cmd = ''wc'' then wc e args cwd fs
      else if cmd = ''grep'' then grep e args cwd fs
      else if cmd = ''find'' then find_cmd e args cwd fs
      else if cmd = ''tree'' then tree e args cwd fs
      else if cmd = ''du'' then du e args cwd fs
      else if cmd = ''df'' then df e args cwd fs
      else if cmd = ''stat'' then stat e args cwd fs
      else if cmd = ''chmod'' then chmod e args cwd fs
      else if cmd = ''date'' then date e args cwd fs
      else if cmd = ''uptime'' then uptime e fs
      else if cmd = ''whoami'' then whoami e cwd fs
      else if cmd = ''hostname'' then hostname e cwd fs
      else if cmd = ''md5sum'' then md5sum e args cwd fs
      else if cmd = ''sha256sum'' then sha256sum e args cwd fs
      else if cmd = ''clear'' then clear cwd fs
      else if cmd = ''which'' then which args cwd fs
      else if cmd = ''help'' \<or> cmd = ''--help'' \<or> cmd = ''-h''
        then (Inr (help_text, [], Some cwd, 0), fs)
      else (Inr ([], ''Command not found: '' @ cmd @ ''\<newline>'', Some cwd, 127), fs))"

text \<open>
  What \<open>run\<close> does with the result of \<open>cat\<close>: a standard output that starts with one of the
  two markers opens a session, from the fields between the colons.
\<close>

definition cat_session :: "interp \<Rightarrow> string \<Rightarrow> result \<Rightarrow> (exn + result) \<times> interp" where
  "cat_session st cwd r =
     (if startswith (fst r) ''HEREDOC_MODE:'' then
        (let parts = split_max CHR '':'' 3 (fst r) in
         if length parts < 4 then (Inl index_error, st)
         else (Inr (''> '', [], Some cwd, 0),
               st\<lparr>heredoc_mode := Some \<lparr>hd_mode = parts ! 1, hd_filepath = parts ! 2,
                                          hd_delimiter = parts ! 3, hd_lines = []\<rparr>\<rparr>))
      else if startswith (fst r) ''INPUT_MODE:'' then
        (let parts = split_max CHR '':'' 2 (fst r) in
         if length parts < 3 then (Inl index_error, st)
         else (Inr (''> '', [], Some cwd, 0),
               st\<lparr>input_mode := Some \<lparr>in_mode = parts ! 1, in_filepath = parts ! 2,
                                        in_lines = []\<rparr>\<rparr>))
      else (Inr r, st))"

text \<open>
  The \<open>try\<close> block of \<open>run\<close>: the verb's handler, the session markers of \<open>cat\<close>, and the
  handler for every exception.
\<close>

definition dispatch ::
  "env \<Rightarrow> interp \<Rightarrow> node \<Rightarrow> string \<Rightarrow> string list \<Rightarrow> string \<Rightarrow> result \<times> interp \<times> node" where
  "dispatch e st fs cmd args cwd =
     (case verb e cmd args cwd fs of (out, fs') \<Rightarrow>
      case (case out of
              Inl x \<Rightarrow> (Inl x, st)
            | Inr r \<Rightarrow> if cmd = ''cat'' then cat_session st cwd r else (Inr r, st)) of
        (Inl x, st') \<Rightarrow> (([], ''Error: '' @ exn_str x @ ''\<newline>'', Some cwd, 1), st', fs')
      | (Inr r, st') \<Rightarrow> (r, st', fs'))"

text \<open>
  The end of a session: the buffered lines are written. A write that raises is reported,
  and the file system is the one the failed write left.
\<close>

definition flush_session ::
  "env \<Rightarrow> node \<Rightarrow> string \<Rightarrow> string \<Rightarrow> string list \<Rightarrow> string \<Rightarrow> result \<times> node" where
  "flush_session e fs filepath mode lines cwd =
     (case write_file e fs filepath mode (join_with ''\<newline>'' lines @ ''\<newline>'') of
        (None, fs') \<Rightarrow> (([], [], Some cwd, 0), fs')
      | (Some x, fs') \<Rightarrow>
          (([], ''cat: write error: '' @ exn_str x @ ''\<newline>'', Some cwd, 1), fs'))"

text \<open>
  \<open>run_line\<close> is \<open>run\<close> after the working directory is fixed and the line is stripped. The
  only exception that can leave it is the one of \<open>parts[0]\<close>, outside the \<open>try\<close> block.
\<close>

definition run_line ::
  "env \<Rightarrow> interp \<Rightarrow> node \<Rightarrow> string \<Rightarrow> string \<Rightarrow> (exn + result) \<times> interp \<times> node" where
  "run_line e st fs raw_cmd cwd =
     (case heredoc_mode st of
        Some h \<Rightarrow>
          if raw_cmd = hd_delimiter h then
            (case flush_session e fs (hd_filepath h) (hd_mode h) (hd_lines h) cwd of
               (r, fs') \<Rightarrow> (Inr r, st\<lparr>heredoc_mode := None\<rparr>, fs'))
          else (Inr (''> '', [], Some cwd, 0),
                st\<lparr>heredoc_mode := Some (h\<lparr>hd_lines := hd_lines h @ [raw_cmd]\<rparr>)\<rparr>, fs)
      | None \<Rightarrow>
          (case input_mode st of
             Some i \<Rightarrow>
               if raw_cmd = [] then
                 (case flush_session e fs (in_filepath i) (in_mode i) (in_lines i) cwd of
                    (r, fs') \<Rightarrow> (Inr r, st\<lparr>input_mode := None\<rparr>, fs'))
               else (Inr (''> '', [], Some cwd, 0),
                     st\<lparr>input_mode := Some (i\<lparr>in_lines := in_lines i @ [raw_cmd]\<rparr>)\<rparr>, fs)
           | None \<Rightarrow>
               if raw_cmd = [] then (Inr ([], [], Some cwd, 0), st, fs)
               else (case shlex_split raw_cmd of
                  Inl x \<Rightarrow> (Inr ([], ''parse error: '' @ exn_str x, Some cwd, 2), st, fs)
                | Inr parts \<Rightarrow>
                    (case parts of
                       [] \<Rightarrow> (Inl index_error, st, fs)
                     | cmd # args \<Rightarrow>
                         (case dispatch e st fs cmd args cwd of
                            (r, st', fs') \<Rightarrow> (Inr r, st', fs'))))))"

text \<open>
  \<open>run\<close>: without a working directory the interpreter uses \<open>/tmp\<close> and creates it; that
  call is outside every \<open>try\<close> block.
\<close>

definition run ::
  "env \<Rightarrow> interp \<Rightarrow> node \<Rightarrow> string \<Rightarrow> string option \<Rightarrow> (exn + result) \<times> interp \<times> node" where
  "run e st fs raw_cmd cwd =
     (case cwd of
        Some c \<Rightarrow> run_line e st fs (py_strip raw_cmd) c
      | None \<Rightarrow>
          (case os_makedirs e fs ''/tmp'' True of
             Inl x \<Rightarrow> (Inl x, st, fs)
           | Inr fs' \<Rightarrow> run_line e st fs' (py_strip raw_cmd) ''/tmp''))"

section \<open>The interactive loop\<close>

text \<open>
  The loop of \<open>cli.py\<close> over the lines it reads: each line is run in the working directory
  the loop holds, and the loop takes over a returned working directory that is neither
  \<open>None\<close> nor empty. An exception that leaves \<open>run\<close> ends the loop. The results are
  collected instead of printed.
\<close>

definition slot :: "result \<Rightarrow> string option" where
  "slot r = fst (snd (snd r))"

definition exit_code :: "result \<Rightarrow> int" where
  "exit_code r = snd (snd (snd r))"

fun cli_loop ::
  "env \<Rightarrow> interp \<Rightarrow> node \<Rightarrow> string \<Rightarrow> string list
   \<Rightarrow> (exn + result) list \<times> interp \<times> node \<times> string" where
  "cli_loop e st fs cwd [] = ([], st, fs, cwd)"
| "cli_loop e st fs cwd (inp # rest) =
     (case run e st fs inp (Some cwd) of
        (Inl x, st', fs') \<Rightarrow> ([Inl x], st', fs', cwd)
      | (Inr r, st', fs') \<Rightarrow>
          (case cli_loop e st' fs'
                  (case slot r of None \<Rightarrow> cwd | Some c \<Rightarrow> if c \<noteq> [] then c else cwd) rest of
             (rs, z) \<Rightarrow> (Inr r # rs, z)))"

section \<open>A concrete host for the examples\<close>

definition example_env :: env where
  "example_env =
     \<lparr>proc_cwd = ''/'', home_dir = ''/home/user'', cpu_percent = ''12.5'',
      mem_total = 8000, mem_used = 4000, mem_percent = ''50.0'',
      procs = [\<lparr>p_pid = 1, p_name = Some ''init'', p_cpu = Some ''  0.0'',
                p_mem = Some ''  0.1''\<rparr>],
      disk_total = 1000, disk_used = 400, disk_free = 600, disk_percent = '' 40'',
      uptime_days = 3, uptime_seconds = 3725, now_text = ''Wed Nov 04 01:00:00 2026'',
      user_name = Inr ''user'', host_name = ''box'',
      mtime_text = (\<lambda>p. ''2026-11-04 01:00''), dir_size = (\<lambda>p. 4096),
      stat_mode = (\<lambda>p. ''0o100644''), stat_atime = (\<lambda>p. ''2026-11-04 01:00:00''),
      stat_mtime = (\<lambda>p. ''2026-11-04 01:00:00''),
      stat_ctime = (\<lambda>p. ''2026-11-04 01:00:00''),
      md5_hex = (\<lambda>c. ''d41d8cd98f00b204e9800998ecf8427e''),
      sha256_hex = (\<lambda>c. ''e3b0c44298fc1c149afbf4c8996fb92427ae41e4649b934ca495991b7852b855''),
      shutil_move = (\<lambda>fs s d. Inr fs), shutil_copytree = (\<lambda>fs s d. Inr fs),
      shutil_copy2 = (\<lambda>fs s d. Inr fs), os_chmod = (\<lambda>fs p m. Inr fs),
      open_fault = (\<lambda>p m. None), write_fault = (\<lambda>p d. None),
      unlink_fault = (\<lambda>p. None), rmtree_fault = (\<lambda>fs p. None)\<rparr>"

definition example_fs :: node where
  "example_fs =
     Dir [(''tmp'', Dir [(''log.txt'', File ''old\<newline>''),
                         (''d'', Dir [(''x'', File ''1''), (''sub'', Dir [])]),
                         (''g.txt'', File ''foo\<newline>bar\<newline>foobar\<newline>''),
                         (''t.txt'', File ''foo  \<newline>''),
                         (''a:b'', Dir [])]),
          (''home'', Dir [(''user'', Dir [])])]"

definition example_heredoc :: interp where
  "example_heredoc =
     \<lparr>heredoc_mode = Some \<lparr>hd_mode = ''a'', hd_filepath = ''/tmp/log.txt'',
                           hd_delimiter = ''EOF'', hd_lines = [''w'']\<rparr>,
      input_mode = None\<rparr>"


definition example_failing :: interp where
  "example_failing =
     \<lparr>heredoc_mode = Some \<lparr>hd_mode = ''a'', hd_filepath = ''/tmp/d'',
                           hd_delimiter = ''EOF'', hd_lines = [''x'']\<rparr>,
      input_mode = None\<rparr>"

definition example_failing_input :: interp where
  "example_failing_input =
     \<lparr>heredoc_mode = None,
      input_mode = Some \<lparr>in_mode = ''w'', in_filepath = ''/tmp/d'', in_lines = [''hello'']\<rparr>\<rparr>"

text \<open>
  The heredoc session that \<open>cat >> log.txt << EOF\<close> opens in the working directory
  \<open>/tmp/a:b\<close>, with the lines buffered so far.
\<close>

definition colon_session :: "string list \<Rightarrow> interp" where
  "colon_session buffered =
     \<lparr>heredoc_mode = Some \<lparr>hd_mode = ''a'', hd_filepath = ''/tmp/a'',
                           hd_delimiter = ''b/log.txt:EOF'', hd_lines = buffered\<rparr>,
      input_mode = None\<rparr>"

section \<open>Predicates used in the proofs\<close>

definition ok_comp :: "string \<Rightarrow> bool" where
  "ok_comp x = (x \<noteq> [] \<and> x \<noteq> ''.'' \<and> CHR ''/'' \<notin> set x)"

definition normal :: "bool \<Rightarrow> string list \<Rightarrow> bool" where
  "normal init acc =
     (list_all ok_comp acc \<and>
      (if init then ''..'' \<notin> set acc
       else ''..'' \<notin> set (dropWhile (\<lambda>x. x = ''..'') acc)))"


text \<open>
  The interpreter states that a sequence of \<open>run\<close> invocations can reach from a fresh
  instance, whatever the host, the file system, the lines and the working directories of
  the invocations.
\<close>

inductive reachable :: "interp \<Rightarrow> bool" where
  fresh: "reachable init_interp"
| step: "reachable st \<Longrightarrow> run e st fs line cwd = (out, st', fs') \<Longrightarrow> reachable st'"

text \<open>
  \<open>is_dir_at fs cs\<close>: a directory stands at the canonical path \<open>cs\<close>. \<open>plain_name p\<close>:
  the path \<open>p\<close> ends in a name that is neither \<open>.\<close> nor \<open>..\<close>, with no slash after it.
  \<open>writable e fs p mode data\<close>: the file at \<open>p\<close> can be created or overwritten with
  \<open>data\<close>: the path resolves to a plain name in an existing directory, no directory
  stands there, and the host reports no fault for opening it in this mode or for writing
  the data. \<open>readable e p\<close>: the host reports no fault for opening \<open>p\<close> for reading.
\<close>

definition is_dir_at :: "node \<Rightarrow> string list \<Rightarrow> bool" where
  "is_dir_at fs cs = (case walk fs cs of Inr (Dir _) \<Rightarrow> True | _ \<Rightarrow> False)"

definition plain_name :: "string \<Rightarrow> bool" where
  "plain_name p =
     (path_names p \<noteq> [] \<and> last (path_names p) \<noteq> ''.'' \<and> last (path_names p) \<noteq> ''..''
      \<and> \<not> trailing_slash p)"

definition writable :: "env \<Rightarrow> node \<Rightarrow> string \<Rightarrow> string \<Rightarrow> string \<Rightarrow> bool" where
  "writable e fs p mode data =
     (open_fault e p mode = None \<and> write_fault e p data = None \<and> plain_name p \<and>
      (case os_resolve e fs p of
         Inl _ \<Rightarrow> False
       | Inr cs \<Rightarrow> \<not> is_dir_at fs cs))"

definition readable :: "env \<Rightarrow> string \<Rightarrow> bool" where
  "readable e p = (open_fault e p ''r'' = None)"



text \<open>
  \<open>keeps_cwd cwd out\<close>: an outcome that is a result carries the working directory \<open>cwd\<close> or
  the sentinel \<open>None\<close> in its working-directory slot. \<open>loop_keeps cwd x\<close>: the same for a
  result a handler's loop returns early. \<open>committed\<close>: the lexer has begun a token, so the
  tokens it returns are not the empty list.
\<close>

definition keeps_cwd :: "string \<Rightarrow> outcome \<Rightarrow> bool" where
  "keeps_cwd cwd out =
     (case fst out of Inl x \<Rightarrow> True | Inr r \<Rightarrow> slot r = Some cwd \<or> slot r = None)"

definition loop_keeps :: "string \<Rightarrow> 'a loop_exit \<Rightarrow> bool" where
  "loop_keeps cwd x = (case x of Returned r \<Rightarrow> slot r = Some cwd | _ \<Rightarrow> True)"

definition committed :: "lexstate \<Rightarrow> string \<Rightarrow> bool \<Rightarrow> lexstate \<Rightarrow> bool" where
  "committed s tok quoted esc =
     (case s of
        LSpace \<Rightarrow> False
      | LWord \<Rightarrow> tok \<noteq> [] \<or> quoted
      | LQuote q \<Rightarrow> True
      | LEscape \<Rightarrow> (case esc of LWord \<Rightarrow> True | LQuote q \<Rightarrow> True | _ \<Rightarrow> False))"

section \<open>Path normalisation is idempotent\<close>

lemma split_on_nonempty: "split_on c s \<noteq> []"
  by (induction s) (auto split: list.splits)

lemma split_on_no_sep: "w \<in> set (split_on c s) \<Longrightarrow> c \<notin> set w"
proof (induction s arbitrary: w)
  case Nil
  then show ?case by simp
next
  case (Cons x xs)
  show ?case
  proof (cases "x = c")
    case True
    with Cons show ?thesis by auto
  next
    case False
    obtain v vs where r: "split_on c xs = v # vs"
      using split_on_nonempty [of c xs] by (cases "split_on c xs") auto
    with Cons.prems False have "w = x # v \<or> w \<in> set vs" by simp
    moreover have "c \<notin> set v" using Cons.IH [of v] r by simp
    moreover have "w \<in> set vs \<Longrightarrow> c \<notin> set w" using Cons.IH [of w] r by simp
    ultimately show ?thesis using False by auto
  qed
qed

lemma split_on_plain: "c \<notin> set w \<Longrightarrow> split_on c w = [w]"
  by (induction w) auto

lemma split_on_append_sep:
  "c \<notin> set w \<Longrightarrow> split_on c (w @ c # rest) = w # split_on c rest"
  by (induction w) auto

lemma split_on_join:
  "ws \<noteq> [] \<Longrightarrow> \<forall>w \<in> set ws. c \<notin> set w \<Longrightarrow> split_on c (join_with [c] ws) = ws"
proof (induction "[c]" ws rule: join_with.induct)
  case 1
  then show ?case by simp
next
  case (2 x)
  then show ?case by (simp add: split_on_plain)
next
  case (3 x y ys)
  then show ?case by (simp add: split_on_append_sep)
qed

lemma dropWhile_snoc_notin:
  "y \<notin> set (dropWhile P acc) \<Longrightarrow> y \<noteq> x \<Longrightarrow> y \<notin> set (dropWhile P (acc @ [x]))"
  by (induction acc) auto

lemma dropWhile_butlast_subset:
  "set (dropWhile P (butlast acc)) \<subseteq> set (dropWhile P acc)"
proof (induction acc)
  case Nil
  then show ?case by simp
next
  case (Cons a acc)
  then show ?case by (auto dest: in_set_butlastD)
qed

lemma dropWhile_last_all:
  assumes "y \<notin> set (dropWhile (\<lambda>x. x = y) acc)" "acc \<noteq> []" "last acc = y"
  shows "\<forall>x \<in> set acc. x = y"
proof (rule ccontr)
  assume "\<not> (\<forall>x \<in> set acc. x = y)"
  then have ne: "dropWhile (\<lambda>x. x = y) acc \<noteq> []" by (simp add: dropWhile_eq_Nil_conv)
  have "acc = takeWhile (\<lambda>x. x = y) acc @ dropWhile (\<lambda>x. x = y) acc" by simp
  then have "last acc = last (dropWhile (\<lambda>x. x = y) acc)" using ne by (metis last_appendR)
  then have "y \<in> set (dropWhile (\<lambda>x. x = y) acc)" using ne assms(3) by (metis last_in_set)
  with assms(1) show False by simp
qed

lemma normal_snoc_plain:
  "normal init acc \<Longrightarrow> ok_comp x \<Longrightarrow> x \<noteq> ''..'' \<Longrightarrow> normal init (acc @ [x])"
proof -
  assume a: "normal init acc" and ok: "ok_comp x" and ne: "x \<noteq> ''..''"
  have "''..'' \<notin> set (dropWhile (\<lambda>x. x = ''..'') acc) \<Longrightarrow>
        ''..'' \<notin> set (dropWhile (\<lambda>x. x = ''..'') (acc @ [x]))"
    using ne by (intro dropWhile_snoc_notin) auto
  then show ?thesis using a ok ne unfolding normal_def by (cases init) auto
qed

lemma normal_snoc_dotdot:
  assumes "normal False acc" "acc = [] \<or> last acc = ''..''"
  shows "normal False (acc @ [''..''])"
proof -
  have all: "\<forall>x \<in> set acc. x = ''..''"
  proof (cases "acc = []")
    case True
    then show ?thesis by simp
  next
    case False
    with assms(2) have l: "last acc = ''..''" by simp
    from assms(1) have d: "''..'' \<notin> set (dropWhile (\<lambda>x. x = ''..'') acc)"
      unfolding normal_def by simp
    show ?thesis by (rule dropWhile_last_all [OF d False l])
  qed
  then have "dropWhile (\<lambda>x. x = ''..'') (acc @ [''..'']) = []"
    by (simp add: dropWhile_eq_Nil_conv)
  moreover have "ok_comp ''..''" by (simp add: ok_comp_def)
  ultimately show ?thesis using assms(1) unfolding normal_def by simp
qed

lemma normal_butlast: "normal init acc \<Longrightarrow> normal init (butlast acc)"
  unfolding normal_def list_all_iff
  using dropWhile_butlast_subset [of "\<lambda>x. x = ''..''" acc]
  by (auto dest: in_set_butlastD)

lemma normal_init_last: "normal True acc \<Longrightarrow> acc \<noteq> [] \<Longrightarrow> last acc \<noteq> ''..''"
  unfolding normal_def by (metis last_in_set)

lemma norm_comps_normal:
  "normal init acc \<Longrightarrow> \<forall>w \<in> set comps. CHR ''/'' \<notin> set w \<Longrightarrow>
   normal init (norm_comps init acc comps)"
proof (induction comps arbitrary: acc)
  case Nil
  then show ?case by simp
next
  case (Cons seg comps)
  have rest: "\<forall>w \<in> set comps. CHR ''/'' \<notin> set w" using Cons.prems(2) by simp
  show ?case
  proof (cases "seg = [] \<or> seg = ''.''")
    case True
    then show ?thesis using Cons.IH [OF Cons.prems(1) rest] by auto
  next
    case skip: False
    then have ok: "ok_comp seg" using Cons.prems(2) by (simp add: ok_comp_def)
    show ?thesis
    proof (cases "seg \<noteq> ''..''")
      case True
      then show ?thesis
        using skip Cons.IH [OF normal_snoc_plain [OF Cons.prems(1) ok True] rest] by simp
    next
      case dd: False
      show ?thesis
      proof (cases "(\<not> init \<and> acc = []) \<or> (acc \<noteq> [] \<and> last acc = ''..'')")
        case True
        then have "\<not> init" using normal_init_last [of acc] Cons.prems(1) by (cases init) auto
        then have "normal init (acc @ [seg])"
          using True dd normal_snoc_dotdot [of acc] Cons.prems(1) by auto
        from Cons.IH [OF this rest] show ?thesis using skip dd True by simp
      next
        case False
        then show ?thesis
          using skip dd Cons.IH [OF normal_butlast [OF Cons.prems(1)] rest]
                Cons.IH [OF Cons.prems(1) rest]
          by auto
      qed
    qed
  qed
qed

lemma norm_comps_fixpoint:
  "normal init (a1 @ a2) \<Longrightarrow> norm_comps init a1 a2 = a1 @ a2"
proof (induction a2 arbitrary: a1)
  case Nil
  then show ?case by simp
next
  case (Cons seg rest)
  from Cons.prems have ok: "ok_comp seg" by (simp add: normal_def)
  then have skip: "\<not> (seg = [] \<or> seg = ''.'')" by (simp add: ok_comp_def)
  have n': "normal init ((a1 @ [seg]) @ rest)" using Cons.prems by simp
  show ?case
  proof (cases "seg = ''..''")
    case False
    then show ?thesis using skip Cons.IH [OF n'] by simp
  next
    case True
    with Cons.prems have ni: "\<not> init" by (auto simp: normal_def)
    have "\<forall>x \<in> set a1. x = ''..''"
    proof (rule ccontr)
      assume "\<not> (\<forall>x \<in> set a1. x = ''..'')"
      then have "dropWhile (\<lambda>x. x = ''..'') (a1 @ seg # rest)
                 = dropWhile (\<lambda>x. x = ''..'') a1 @ seg # rest"
        by (auto simp: dropWhile_append)
      with Cons.prems ni True show False by (simp add: normal_def)
    qed
    then have "a1 = [] \<or> (a1 \<noteq> [] \<and> last a1 = ''..'')" by (cases "a1 = []") auto
    then show ?thesis using skip True ni Cons.IH [OF n'] by auto
  qed
qed

lemma norm_comps_skip_empty:
  "norm_comps init acc (replicate n [] @ xs) = norm_comps init acc xs"
  by (induction n) auto

lemma join_with_Nil_iff:
  "list_all ok_comp ws \<Longrightarrow> join_with ''/'' ws = [] \<longleftrightarrow> ws = []"
  by (induction "''/''" ws rule: join_with.induct) (auto simp: ok_comp_def)

lemma join_with_hd:
  "list_all ok_comp ws \<Longrightarrow> ws \<noteq> [] \<Longrightarrow> hd (join_with ''/'' ws) \<noteq> CHR ''/''"
proof (induction "''/''" ws rule: join_with.induct)
  case 1
  then show ?case by simp
next
  case (2 x)
  then show ?case by (cases x) (auto simp: ok_comp_def)
next
  case (3 x y ys)
  then show ?case by (cases x) (auto simp: ok_comp_def)
qed

lemma split_on_slashes:
  "split_on CHR ''/'' (replicate n CHR ''/'' @ s) = replicate n [] @ split_on CHR ''/'' s"
  by (induction n) auto

lemma initial_slashes_cases: "initial_slashes s = 0 \<or> initial_slashes s = 1 \<or> initial_slashes s = 2"
  by (simp add: initial_slashes_def)

lemma initial_slashes_rebuilt:
  assumes "n = 0 \<or> n = 1 \<or> n = (2::nat)" "t = [] \<or> hd t \<noteq> CHR ''/''"
  shows "initial_slashes (replicate n CHR ''/'' @ t) = n"
  using assms by (cases t) (auto simp: initial_slashes_def startswith_def numeral_2_eq_2)

lemma normpath_idem: "normpath (normpath s) = normpath s"
proof (cases "s = []")
  case True
  then show ?thesis by (simp add: normpath_def initial_slashes_def startswith_def)
next
  case False
  define n where "n = initial_slashes s"
  define comps where "comps = norm_comps (n \<noteq> 0) [] (split_on CHR ''/'' s)"
  define p where "p = replicate n CHR ''/'' @ join_with ''/'' comps"
  have nrm: "normal (n \<noteq> 0) comps"
    unfolding comps_def
    by (rule norm_comps_normal) (auto simp: normal_def dest: split_on_no_sep)
  then have oks: "list_all ok_comp comps" by (simp add: normal_def)
  have res: "normpath s = (if p = [] then ''.'' else p)"
    unfolding normpath_def Let_def p_def comps_def n_def using False by simp
  show ?thesis
  proof (cases "p = []")
    case True
    have "normpath ''.'' = ''.''"
      by (simp add: normpath_def initial_slashes_def startswith_def)
    then show ?thesis using res True by simp
  next
    case pne: False
    have ncases: "n = 0 \<or> n = 1 \<or> n = 2" unfolding n_def by (rule initial_slashes_cases)
    have hd: "join_with ''/'' comps = [] \<or> hd (join_with ''/'' comps) \<noteq> CHR ''/''"
      using join_with_hd [OF oks] join_with_Nil_iff [OF oks] by auto
    have n': "initial_slashes p = n"
      unfolding p_def by (rule initial_slashes_rebuilt [OF ncases hd])
    have sp: "norm_comps (n \<noteq> 0) [] (split_on CHR ''/'' p) = comps"
    proof (cases "comps = []")
      case True
      then show ?thesis
        using split_on_slashes [of n "[]"] by (simp add: p_def norm_comps_skip_empty)
    next
      case False
      have "split_on CHR ''/'' (join_with ''/'' comps) = comps"
        using split_on_join [OF False, of "CHR ''/''"] oks
        by (simp add: list_all_iff ok_comp_def)
      then have "split_on CHR ''/'' p = replicate n [] @ comps"
        by (simp add: p_def split_on_slashes)
      then show ?thesis
        using norm_comps_fixpoint [of "n \<noteq> 0" "[]" comps] nrm
        by (simp add: norm_comps_skip_empty)
    qed
    have "normpath p = (if replicate n CHR ''/'' @ join_with ''/'' comps = [] then ''.''
                        else replicate n CHR ''/'' @ join_with ''/'' comps)"
      unfolding normpath_def Let_def n' sp using pne by simp
    then have "normpath p = p"
      using pne by (simp add: p_def)
    then show ?thesis using res pne by simp
  qed
qed

lemma isabs_normpath:
  assumes "isabs s"
  shows "isabs (normpath s)"
proof -
  have ne: "s \<noteq> []" using assms by (auto simp: isabs_def startswith_def)
  have n: "initial_slashes s = Suc 0 \<or> initial_slashes s = Suc (Suc 0)"
    using assms by (simp add: isabs_def initial_slashes_def)
  have "\<exists>t. normpath s = CHR ''/'' # t"
    unfolding normpath_def Let_def using ne n by auto
  then show ?thesis by (auto simp: isabs_def startswith_def)
qed

lemma isabs_path_join: "isabs cwd \<Longrightarrow> isabs (path_join cwd p)"
  by (cases cwd) (auto simp: isabs_def path_join_def startswith_def)

text \<open>
  Claim C9. Resolving a path against a working directory and resolving the result again
  gives the same string. A working directory is an absolute path; the statement also
  covers an absolute \<open>p\<close> with any \<open>cwd\<close>. The second resolution may use any
  working directory \<open>cwd'\<close>, since the first result is absolute.
\<close>

theorem path_resolve_idempotent:
  "isabs p \<or> isabs cwd \<Longrightarrow>
   path_resolve (path_resolve p cwd) cwd' = path_resolve p cwd"
  by (auto simp: path_resolve_def isabs_normpath isabs_path_join normpath_idem)

theorem path_resolve_idempotent_witness:
  "(isabs ''a/../b/./c'' \<or> isabs ''/tmp//x'') \<and>
   path_resolve (path_resolve ''a/../b/./c'' ''/tmp//x'') ''/srv'' = ''/tmp/x/b/c'' \<and>
   path_resolve ''a/../b/./c'' ''/tmp//x'' = ''/tmp/x/b/c''"
proof -
  have abs: "isabs ''/tmp//x''" by (simp add: isabs_def startswith_def)
  have r: "path_resolve ''a/../b/./c'' ''/tmp//x'' = ''/tmp/x/b/c''" by code_simp
  from abs have "isabs ''a/../b/./c'' \<or> isabs ''/tmp//x''" by simp
  from path_resolve_idempotent [OF this, of "''/srv''"] r abs show ?thesis by simp
qed

section \<open>The working-directory slot of the system metrics\<close>

lemma ps_lines_complete:
  "list_all (\<lambda>p. p_name p \<noteq> None \<and> p_cpu p \<noteq> None \<and> p_mem p \<noteq> None) pl
   \<Longrightarrow> \<exists>lns. ps_lines pl acc = Inr lns"
proof (induction pl arbitrary: acc)
  case Nil
  then show ?case by simp
next
  case (Cons p pl)
  then obtain n c m where "p_name p = Some n" "p_cpu p = Some c" "p_mem p = Some m" by auto
  then have "ps_line p = Inr (rjust 6 (str_of_int (p_pid p)) @ '' '' @ ljust 20 (py_take 20 n)
                              @ '' CPU%:'' @ c @ '' MEM%:'' @ m)"
    by (simp add: ps_line_def)
  then show ?case using Cons by simp
qed

text \<open>
  Claim C1, as the code has it. The verbs \<open>cpu\<close>, \<open>mem\<close> and \<open>uptime\<close> return the
  "unchanged" sentinel \<open>None\<close> in the working-directory slot, whatever the arguments and the
  working directory passed in; so does \<open>ps\<close> when every listed process reports its name,
  CPU and memory figures. The verb \<open>df\<close> returns the working directory it was given.
\<close>

theorem metrics_cwd_slot:
  "slot (fst (dispatch e st fs ''cpu'' args cwd)) = None \<and>
   slot (fst (dispatch e st fs ''mem'' args cwd)) = None \<and>
   slot (fst (dispatch e st fs ''uptime'' args cwd)) = None \<and>
   (list_all (\<lambda>p. p_name p \<noteq> None \<and> p_cpu p \<noteq> None \<and> p_mem p \<noteq> None) (procs e)
      \<longrightarrow> slot (fst (dispatch e st fs ''ps'' args cwd)) = None) \<and>
   slot (fst (dispatch e st fs ''df'' args cwd)) = Some cwd"
proof -
  have cpu: "slot (fst (dispatch e st fs ''cpu'' args cwd)) = None"
    by (simp add: dispatch_def verb_def cpu_def slot_def)
  have mem: "slot (fst (dispatch e st fs ''mem'' args cwd)) = None"
    by (simp add: dispatch_def verb_def mem_def slot_def)
  have up: "slot (fst (dispatch e st fs ''uptime'' args cwd)) = None"
    by (simp add: dispatch_def verb_def uptime_def slot_def Let_def)
  have df: "slot (fst (dispatch e st fs ''df'' args cwd)) = Some cwd"
    by (simp add: dispatch_def verb_def df_def slot_def)
  have ps: "slot (fst (dispatch e st fs ''ps'' args cwd)) = None"
    if "list_all (\<lambda>p. p_name p \<noteq> None \<and> p_cpu p \<noteq> None \<and> p_mem p \<noteq> None) (procs e)"
  proof -
    from ps_lines_complete [OF that] obtain lns where "ps_lines (procs e) [] = Inr lns" by blast
    then show ?thesis by (simp add: dispatch_def verb_def ps_def slot_def)
  qed
  from cpu mem up df ps show ?thesis by blast
qed

theorem metrics_cwd_slot_witness:
  "list_all (\<lambda>p. p_name p \<noteq> None \<and> p_cpu p \<noteq> None \<and> p_mem p \<noteq> None) (procs example_env) \<and>
   slot (fst (dispatch example_env init_interp example_fs ''ps'' [] ''/tmp'')) = None \<and>
   slot (fst (dispatch example_env init_interp example_fs ''cpu'' [] ''/tmp'')) = None \<and>
   slot (fst (dispatch example_env init_interp example_fs ''df'' [] ''/tmp'')) = Some ''/tmp''"
proof -
  have "list_all (\<lambda>p. p_name p \<noteq> None \<and> p_cpu p \<noteq> None \<and> p_mem p \<noteq> None) (procs example_env)"
    by (simp add: example_env_def)
  with metrics_cwd_slot [of example_env init_interp example_fs "[]" "''/tmp''"]
  show ?thesis by blast
qed

text \<open>
  The claim as stated fails for \<open>df\<close>: run in \<open>/tmp\<close>, its result carries \<open>/tmp\<close> in the
  working-directory slot and not the sentinel.
\<close>

theorem df_cwd_slot_counterexample:
  "\<not> (\<exists>out err code. fst (run example_env init_interp example_fs ''df'' (Some ''/tmp''))
         = Inr (out, err, None, code))"
proof -
  have "fst (run example_env init_interp example_fs ''df'' (Some ''/tmp'')) =
    Inr (''Filesystem     Size      Used     Avail    Use%\<newline>root            1000        400        600   40%\<newline>'',
         [], Some ''/tmp'', 0)"
    by code_simp
  then show ?thesis by simp
qed

section \<open>Lines of a heredoc session\<close>

text \<open>
  Claim C2, as the code has it. \<open>run\<close> strips the line before anything else. While a heredoc
  session is active, every input line whose stripped form differs from the terminator is
  appended to the buffer in its stripped form; the file system and the rest of the state
  stay as they are, and the invocation returns the continuation prompt with exit code 0.
\<close>

theorem heredoc_line_buffered:
  "heredoc_mode st = Some h \<Longrightarrow> py_strip line \<noteq> hd_delimiter h \<Longrightarrow>
   run e st fs line (Some cwd) =
     (Inr (''> '', [], Some cwd, 0),
      st\<lparr>heredoc_mode := Some (h\<lparr>hd_lines := hd_lines h @ [py_strip line]\<rparr>)\<rparr>, fs)"
  by (simp add: run_def run_line_def)

theorem heredoc_line_buffered_witness:
  "heredoc_mode example_heredoc
     = Some \<lparr>hd_mode = ''a'', hd_filepath = ''/tmp/log.txt'', hd_delimiter = ''EOF'',
             hd_lines = [''w'']\<rparr> \<and>
   py_strip ''  x  '' = ''x'' \<and>
   run example_env example_heredoc example_fs ''  x  '' (Some ''/tmp'') =
     (Inr (''> '', [], Some ''/tmp'', 0),
      \<lparr>heredoc_mode = Some \<lparr>hd_mode = ''a'', hd_filepath = ''/tmp/log.txt'',
                            hd_delimiter = ''EOF'', hd_lines = [''w'', ''x'']\<rparr>,
       input_mode = None\<rparr>, example_fs)"
proof -
  have s: "py_strip ''  x  '' = ''x''" by code_simp
  have h: "heredoc_mode example_heredoc
     = Some \<lparr>hd_mode = ''a'', hd_filepath = ''/tmp/log.txt'', hd_delimiter = ''EOF'',
             hd_lines = [''w'']\<rparr>"
    by (simp add: example_heredoc_def)
  have "py_strip ''  x  '' \<noteq> hd_delimiter \<lparr>hd_mode = ''a'', hd_filepath = ''/tmp/log.txt'',
             hd_delimiter = ''EOF'', hd_lines = [''w'']\<rparr>"
    unfolding s by simp
  from heredoc_line_buffered [OF h this, of example_env example_fs "''/tmp''"] s h
  show ?thesis by (simp add: example_heredoc_def)
qed

lemma open_heredoc_example:
  "run example_env init_interp example_fs ''cat >> log.txt << EOF'' (Some ''/tmp'')
   = (Inr (''> '', [], Some ''/tmp'', 0),
      \<lparr>heredoc_mode = Some \<lparr>hd_mode = ''a'', hd_filepath = ''/tmp/log.txt'',
                            hd_delimiter = ''EOF'', hd_lines = []\<rparr>, input_mode = None\<rparr>,
      example_fs)"
  by code_simp

lemma padded_line_example:
  "run example_env \<lparr>heredoc_mode = Some \<lparr>hd_mode = ''a'', hd_filepath = ''/tmp/log.txt'',
                            hd_delimiter = ''EOF'', hd_lines = []\<rparr>, input_mode = None\<rparr>
     example_fs ''  x  '' (Some ''/tmp'')
   = (Inr (''> '', [], Some ''/tmp'', 0),
      \<lparr>heredoc_mode = Some \<lparr>hd_mode = ''a'', hd_filepath = ''/tmp/log.txt'',
                            hd_delimiter = ''EOF'', hd_lines = [''x'']\<rparr>, input_mode = None\<rparr>,
      example_fs)"
  by code_simp

text \<open>
  The claim as stated fails: the line \<open>"  x  "\<close> differs from the terminator \<open>EOF\<close>, and the
  buffer receives \<open>"x"\<close>. The session is the one the command \<open>cat >> log.txt << EOF\<close> opens in
  \<open>/tmp\<close>.
\<close>

theorem heredoc_verbatim_counterexample:
  "\<not> (map_option hd_lines (heredoc_mode (fst (snd
         (cli_loop example_env init_interp example_fs ''/tmp''
            [''cat >> log.txt << EOF'', ''  x  ''])))) = Some [''  x  ''])
   \<and> map_option hd_lines (heredoc_mode (fst (snd
         (cli_loop example_env init_interp example_fs ''/tmp''
            [''cat >> log.txt << EOF'', ''  x  ''])))) = Some [''x'']"
  by (simp add: open_heredoc_example padded_line_example slot_def)

section \<open>A failed flush ends the session\<close>

text \<open>
  Claim C5. When the terminating line arrives (the terminator of a heredoc session, an
  empty line of a raw-input session) and the write to the target file raises, whatever
  the exception and whether it comes from \<open>open\<close> or from the write after it, the
  invocation returns \<open>cat: write error: ...\<close> with exit code 1 and the session is cleared:
  the buffered lines are in no state any more, and the next line is an ordinary command.
\<close>

theorem flush_failure_clears_session:
  "(heredoc_mode st = Some h \<and> py_strip line = hd_delimiter h \<and>
    fst (write_file e fs (hd_filepath h) (hd_mode h)
           (join_with ''\<newline>'' (hd_lines h) @ ''\<newline>'')) = Some x
    \<longrightarrow> fst (run e st fs line (Some cwd)) =
          Inr ([], ''cat: write error: '' @ exn_str x @ ''\<newline>'', Some cwd, 1) \<and>
        fst (snd (run e st fs line (Some cwd))) = st\<lparr>heredoc_mode := None\<rparr>) \<and>
   (heredoc_mode st = None \<and> input_mode st = Some i \<and> py_strip line = [] \<and>
    fst (write_file e fs (in_filepath i) (in_mode i)
           (join_with ''\<newline>'' (in_lines i) @ ''\<newline>'')) = Some x
    \<longrightarrow> fst (run e st fs line (Some cwd)) =
          Inr ([], ''cat: write error: '' @ exn_str x @ ''\<newline>'', Some cwd, 1) \<and>
        fst (snd (run e st fs line (Some cwd))) = st\<lparr>input_mode := None\<rparr>)"
  by (auto simp: run_def run_line_def flush_session_def split: prod.splits option.splits)

theorem flush_failure_clears_session_witness:
  "fst (write_file example_env example_fs ''/tmp/d'' ''a'' ''x\<newline>'') = Some (os_error 21 ''/tmp/d'') \<and>
   fst (run example_env example_failing example_fs '' EOF'' (Some ''/tmp'')) =
     Inr ([], ''cat: write error: '' @ exn_str (os_error 21 ''/tmp/d'') @ ''\<newline>'', Some ''/tmp'', 1) \<and>
   fst (snd (run example_env example_failing example_fs '' EOF'' (Some ''/tmp''))) = init_interp \<and>
   fst (write_file example_env example_fs ''/tmp/d'' ''w'' ''hello\<newline>'') = Some (os_error 21 ''/tmp/d'') \<and>
   fst (run example_env example_failing_input example_fs ''  '' (Some ''/tmp'')) =
     Inr ([], ''cat: write error: '' @ exn_str (os_error 21 ''/tmp/d'') @ ''\<newline>'', Some ''/tmp'', 1) \<and>
   fst (snd (run example_env example_failing_input example_fs ''  '' (Some ''/tmp''))) = init_interp"
proof -
  let ?h = "\<lparr>hd_mode = ''a'', hd_filepath = ''/tmp/d'', hd_delimiter = ''EOF'', hd_lines = [''x'']\<rparr>"
  let ?i = "\<lparr>in_mode = ''w'', in_filepath = ''/tmp/d'', in_lines = [''hello'']\<rparr>"
  have h: "heredoc_mode example_failing = Some ?h" by (simp add: example_failing_def)
  have i: "heredoc_mode example_failing_input = None" "input_mode example_failing_input = Some ?i"
    by (simp_all add: example_failing_input_def)
  have s1: "py_strip '' EOF'' = ''EOF''" by code_simp
  have s2: "py_strip ''  '' = []" by code_simp
  have w1: "fst (write_file example_env example_fs ''/tmp/d'' ''a'' ''x\<newline>'')
              = Some (os_error 21 ''/tmp/d'')"
    by code_simp
  have w2: "fst (write_file example_env example_fs ''/tmp/d'' ''w'' ''hello\<newline>'')
              = Some (os_error 21 ''/tmp/d'')"
    by code_simp
  have p1: "heredoc_mode example_failing = Some ?h \<and> py_strip '' EOF'' = hd_delimiter ?h \<and>
        fst (write_file example_env example_fs (hd_filepath ?h) (hd_mode ?h)
               (join_with ''\<newline>'' (hd_lines ?h) @ ''\<newline>'')) = Some (os_error 21 ''/tmp/d'')"
    using h s1 w1 by simp
  have p2: "heredoc_mode example_failing_input = None \<and> input_mode example_failing_input = Some ?i \<and>
        py_strip ''  '' = [] \<and>
        fst (write_file example_env example_fs (in_filepath ?i) (in_mode ?i)
               (join_with ''\<newline>'' (in_lines ?i) @ ''\<newline>'')) = Some (os_error 21 ''/tmp/d'')"
    using i s2 w2 by simp
  from p1 flush_failure_clears_session [where st = example_failing and h = ?h
         and line = "'' EOF''" and e = example_env and fs = example_fs
         and x = "os_error 21 ''/tmp/d''" and cwd = "''/tmp''"]
  have r1: "fst (run example_env example_failing example_fs '' EOF'' (Some ''/tmp'')) =
          Inr ([], ''cat: write error: '' @ exn_str (os_error 21 ''/tmp/d'') @ ''\<newline>'', Some ''/tmp'', 1)"
    and t1: "fst (snd (run example_env example_failing example_fs '' EOF'' (Some ''/tmp'')))
          = example_failing\<lparr>heredoc_mode := None\<rparr>"
    by blast+
  from p2 flush_failure_clears_session [where st = example_failing_input and i = ?i
         and line = "''  ''" and e = example_env and fs = example_fs
         and x = "os_error 21 ''/tmp/d''" and cwd = "''/tmp''"]
  have r2: "fst (run example_env example_failing_input example_fs ''  '' (Some ''/tmp'')) =
          Inr ([], ''cat: write error: '' @ exn_str (os_error 21 ''/tmp/d'') @ ''\<newline>'', Some ''/tmp'', 1)"
    and t2: "fst (snd (run example_env example_failing_input example_fs ''  '' (Some ''/tmp'')))
          = example_failing_input\<lparr>input_mode := None\<rparr>"
    by blast+
  have e1: "example_failing\<lparr>heredoc_mode := None\<rparr> = init_interp"
    by (simp add: example_failing_def init_interp_def)
  have e2: "example_failing_input\<lparr>input_mode := None\<rparr> = init_interp"
    by (simp add: example_failing_input_def init_interp_def)
  from w1 w2 r1 r2 t1 t2 e1 e2 show ?thesis by simp
qed

section \<open>At most one session, and no dispatch while it is open\<close>

lemma cat_session_one:
  "cat_session st cwd r = (out, st') \<Longrightarrow> heredoc_mode st = None \<Longrightarrow> input_mode st = None
   \<Longrightarrow> heredoc_mode st' = None \<or> input_mode st' = None"
  by (auto simp: cat_session_def Let_def split: if_splits)

lemma dispatch_one:
  "dispatch e st fs cmd args cwd = (r, st', fs') \<Longrightarrow> heredoc_mode st = None
   \<Longrightarrow> input_mode st = None \<Longrightarrow> heredoc_mode st' = None \<or> input_mode st' = None"
  unfolding dispatch_def
  by (auto split: prod.splits sum.splits if_splits dest: cat_session_one)

lemma run_line_one:
  "run_line e st fs raw cwd = (out, st', fs') \<Longrightarrow> heredoc_mode st = None \<or> input_mode st = None
   \<Longrightarrow> heredoc_mode st' = None \<or> input_mode st' = None"
  unfolding run_line_def
  by (auto split: option.splits if_splits prod.splits sum.splits list.splits dest: dispatch_one)

lemma run_one:
  "run e st fs line cwd = (out, st', fs') \<Longrightarrow> heredoc_mode st = None \<or> input_mode st = None
   \<Longrightarrow> heredoc_mode st' = None \<or> input_mode st' = None"
  unfolding run_def
  by (auto split: option.splits sum.splits dest: run_line_one)

lemma reachable_one: "reachable st \<Longrightarrow> heredoc_mode st = None \<or> input_mode st = None"
proof (induction rule: reachable.induct)
  case fresh
  then show ?case by (simp add: init_interp_def)
next
  case (step st e fs line cwd out st' fs')
  from step.hyps(2) step.IH show ?case by (rule run_one)
qed

text \<open>
  Claim C4. In every reachable state at most one of the two session slots is filled. With
  a heredoc session open, \<open>run\<close> is the session's step: the terminator flushes and clears
  the session, any other line joins the buffer and leaves the file system alone. With a
  raw-input session open it is that session's step, the empty line being the terminator.
  Neither step tokenizes the line or looks up a verb.
\<close>

theorem one_session_and_routing:
  "reachable st \<Longrightarrow>
   (heredoc_mode st = None \<or> input_mode st = None) \<and>
   (\<forall>h. heredoc_mode st = Some h \<longrightarrow>
      run e st fs line (Some cwd) =
        (if py_strip line = hd_delimiter h
         then (Inr (fst (flush_session e fs (hd_filepath h) (hd_mode h) (hd_lines h) cwd)),
               st\<lparr>heredoc_mode := None\<rparr>,
               snd (flush_session e fs (hd_filepath h) (hd_mode h) (hd_lines h) cwd))
         else (Inr (''> '', [], Some cwd, 0),
               st\<lparr>heredoc_mode := Some (h\<lparr>hd_lines := hd_lines h @ [py_strip line]\<rparr>)\<rparr>, fs))) \<and>
   (\<forall>i. input_mode st = Some i \<longrightarrow>
      run e st fs line (Some cwd) =
        (if py_strip line = []
         then (Inr (fst (flush_session e fs (in_filepath i) (in_mode i) (in_lines i) cwd)),
               st\<lparr>input_mode := None\<rparr>,
               snd (flush_session e fs (in_filepath i) (in_mode i) (in_lines i) cwd))
         else (Inr (''> '', [], Some cwd, 0),
               st\<lparr>input_mode := Some (i\<lparr>in_lines := in_lines i @ [py_strip line]\<rparr>)\<rparr>, fs)))"
proof -
  assume r: "reachable st"
  have one: "heredoc_mode st = None \<or> input_mode st = None" by (rule reachable_one [OF r])
  have hd: "run e st fs line (Some cwd) =
        (if py_strip line = hd_delimiter h
         then (Inr (fst (flush_session e fs (hd_filepath h) (hd_mode h) (hd_lines h) cwd)),
               st\<lparr>heredoc_mode := None\<rparr>,
               snd (flush_session e fs (hd_filepath h) (hd_mode h) (hd_lines h) cwd))
         else (Inr (''> '', [], Some cwd, 0),
               st\<lparr>heredoc_mode := Some (h\<lparr>hd_lines := hd_lines h @ [py_strip line]\<rparr>)\<rparr>, fs))"
    if "heredoc_mode st = Some h" for h
    using that by (simp add: run_def run_line_def split: prod.splits)
  have inp: "run e st fs line (Some cwd) =
        (if py_strip line = []
         then (Inr (fst (flush_session e fs (in_filepath i) (in_mode i) (in_lines i) cwd)),
               st\<lparr>input_mode := None\<rparr>,
               snd (flush_session e fs (in_filepath i) (in_mode i) (in_lines i) cwd))
         else (Inr (''> '', [], Some cwd, 0),
               st\<lparr>input_mode := Some (i\<lparr>in_lines := in_lines i @ [py_strip line]\<rparr>)\<rparr>, fs))"
    if "input_mode st = Some i" for i
  proof -
    from one that have "heredoc_mode st = None" by auto
    with that show ?thesis by (simp add: run_def run_line_def split: prod.splits)
  qed
  from one hd inp show ?thesis by blast
qed

theorem one_session_and_routing_witness:
  "reachable \<lparr>heredoc_mode = Some \<lparr>hd_mode = ''a'', hd_filepath = ''/tmp/log.txt'',
                                   hd_delimiter = ''EOF'', hd_lines = []\<rparr>, input_mode = None\<rparr> \<and>
   py_strip ''rm -r d'' = ''rm -r d'' \<and>
   run example_env \<lparr>heredoc_mode = Some \<lparr>hd_mode = ''a'', hd_filepath = ''/tmp/log.txt'',
                                       hd_delimiter = ''EOF'', hd_lines = []\<rparr>, input_mode = None\<rparr>
       example_fs ''rm -r d'' (Some ''/tmp'') =
     (Inr (''> '', [], Some ''/tmp'', 0),
      \<lparr>heredoc_mode = Some \<lparr>hd_mode = ''a'', hd_filepath = ''/tmp/log.txt'',
                            hd_delimiter = ''EOF'', hd_lines = [''rm -r d'']\<rparr>, input_mode = None\<rparr>,
      example_fs)"
proof -
  let ?h = "\<lparr>hd_mode = ''a'', hd_filepath = ''/tmp/log.txt'', hd_delimiter = ''EOF'', hd_lines = []\<rparr>"
  let ?st = "\<lparr>heredoc_mode = Some ?h, input_mode = None\<rparr>"
  have r: "reachable ?st"
    by (rule reachable.step [OF reachable.fresh open_heredoc_example])
  have s: "py_strip ''rm -r d'' = ''rm -r d''" by code_simp
  from one_session_and_routing [OF r, of example_env example_fs "''rm -r d''" "''/tmp''"]
  have "run example_env ?st example_fs ''rm -r d'' (Some ''/tmp'') =
        (if py_strip ''rm -r d'' = hd_delimiter ?h
         then (Inr (fst (flush_session example_env example_fs (hd_filepath ?h) (hd_mode ?h) (hd_lines ?h) ''/tmp'')),
               ?st\<lparr>heredoc_mode := None\<rparr>,
               snd (flush_session example_env example_fs (hd_filepath ?h) (hd_mode ?h) (hd_lines ?h) ''/tmp''))
         else (Inr (''> '', [], Some ''/tmp'', 0),
               ?st\<lparr>heredoc_mode := Some (?h\<lparr>hd_lines := hd_lines ?h @ [py_strip ''rm -r d'']\<rparr>)\<rparr>, example_fs))"
    by simp
  then show ?thesis using r s by simp
qed

section \<open>Facts on the file tree\<close>

lemma walk_append:
  "walk fs (xs @ ys) = (case walk fs xs of Inl n \<Rightarrow> Inl n | Inr m \<Rightarrow> walk m ys)"
  by (induction xs arbitrary: fs) (auto split: node.splits option.splits)

lemma walk_put_same:
  "cs \<noteq> [] \<Longrightarrow> walk fs (butlast cs) = Inr (Dir es) \<Longrightarrow> walk (put fs cs new) cs = Inr new"
proof (induction cs arbitrary: fs)
  case Nil
  then show ?case by simp
next
  case (Cons c cs')
  show ?case
  proof (cases "cs' = []")
    case True
    then have "fs = Dir es" using Cons.prems by simp
    then show ?thesis using True by (simp add: update_conv' split: option.splits)
  next
    case False
    then have b: "butlast (c # cs') = c # butlast cs'" by simp
    from Cons.prems(2) obtain es0 m where fs: "fs = Dir es0" and m: "map_of es0 c = Some m"
      and w: "walk m (butlast cs') = Inr (Dir es)"
      unfolding b by (auto split: node.splits option.splits)
    from Cons.IH [OF False w] have "walk (put m cs' new) cs' = Inr new" .
    then show ?thesis using fs m by (simp add: update_conv')
  qed
qed

lemma walk_del_below:
  "cs \<noteq> [] \<Longrightarrow> walk fs cs = Inr n \<Longrightarrow> walk (del fs cs) (cs @ ds) = Inl 2"
proof (induction cs arbitrary: fs)
  case Nil
  then show ?case by simp
next
  case (Cons c cs')
  from Cons.prems(2) obtain es m where fs: "fs = Dir es" and m: "map_of es c = Some m"
    and w: "walk m cs' = Inr n"
    by (auto split: node.splits option.splits)
  show ?case
  proof (cases "cs' = []")
    case True
    then show ?thesis using fs by (simp add: delete_conv')
  next
    case False
    from Cons.IH [OF False w] have "walk (del m cs') (cs' @ ds) = Inl 2" .
    then show ?thesis using fs m False by (simp add: update_conv')
  qed
qed

lemma walk_del_other:
  "take (length cs) qs \<noteq> cs \<Longrightarrow> take (length qs) cs \<noteq> qs \<Longrightarrow> walk (del fs cs) qs = walk fs qs"
proof (induction cs arbitrary: fs qs)
  case Nil
  then show ?case by simp
next
  case (Cons c cs')
  from Cons.prems(2) obtain q qs' where qs: "qs = q # qs'" by (cases qs) auto
  show ?case
  proof (cases fs)
    case (File x)
    then show ?thesis by simp
  next
    case (Dir es)
    show ?thesis
    proof (cases "q = c")
      case False
      then show ?thesis using Dir qs
        by (auto simp: update_conv' delete_conv' split: option.splits)
    next
      case True
      with Cons.prems qs have p1: "take (length cs') qs' \<noteq> cs'" and p2: "take (length qs') cs' \<noteq> qs'"
        by auto
      then have ne: "cs' \<noteq> []" by auto
      show ?thesis
      proof (cases "map_of es c")
        case None
        then show ?thesis using Dir ne by simp
      next
        case (Some m)
        from Cons.IH [OF p1 p2] have "walk (del m cs') qs' = walk m qs'" .
        then show ?thesis using Dir Some ne qs True by (simp add: update_conv')
      qed
    qed
  qed
qed

text \<open>Writing a file where no directory stands keeps every directory a directory.\<close>

lemma put_file_keeps_dirs:
  "is_dir_at fs qs \<Longrightarrow> \<not> is_dir_at fs cs \<Longrightarrow> is_dir_at (put fs cs (File d)) qs"
proof (induction cs arbitrary: fs qs)
  case Nil
  then show ?case by (cases qs) (auto simp: is_dir_at_def split: node.splits sum.splits)
next
  case (Cons c cs')
  show ?case
  proof (cases fs)
    case (File x)
    then show ?thesis using Cons.prems by simp
  next
    case (Dir es)
    show ?thesis
    proof (cases qs)
      case Nil
      then show ?thesis using Dir by (simp add: is_dir_at_def split: option.splits)
    next
      case (Cons q qs')
      show ?thesis
      proof (cases "q = c")
        case False
        then show ?thesis using Dir Cons Cons.prems(1)
          by (auto simp: is_dir_at_def update_conv' split: option.splits)
      next
        case True
        show ?thesis
        proof (cases "map_of es c")
          case None
          then show ?thesis using Dir Cons True Cons.prems(1) by (simp add: is_dir_at_def)
        next
          case (Some m)
          from Cons.prems(1) Dir Cons True Some have a: "is_dir_at m qs'"
            by (simp add: is_dir_at_def)
          from Cons.prems(2) Dir Some have b: "\<not> is_dir_at m cs'"
            by (simp add: is_dir_at_def)
          from Cons.IH [OF a b] show ?thesis using Dir Cons True Some
            by (simp add: is_dir_at_def update_conv')
        qed
      qed
    qed
  qed
qed

lemma descend_mono:
  "(\<And>qs. is_dir_at fs qs \<Longrightarrow> is_dir_at fs1 qs) \<Longrightarrow> descend fs cur names = Inr cs
   \<Longrightarrow> descend fs1 cur names = Inr cs"
proof (induction names arbitrary: cur)
  case Nil
  then show ?case by simp
next
  case (Cons c names)
  from Cons.prems(2) have d: "is_dir_at fs cur"
    by (auto simp: is_dir_at_def split: sum.splits node.splits)
  then have d1: "is_dir_at fs1 cur" by (rule Cons.prems(1))
  let ?next = "if c = ''.'' then cur else if c = ''..'' then butlast cur else cur @ [c]"
  from Cons.prems(2) d have "descend fs ?next names = Inr cs"
    by (auto simp: is_dir_at_def split: sum.splits node.splits)
  from Cons.IH [OF Cons.prems(1) this] have "descend fs1 ?next names = Inr cs" .
  then show ?case using d1 by (auto simp: is_dir_at_def split: sum.splits node.splits)
qed

lemma descend_parent:
  "descend fs cur names = Inr cs \<Longrightarrow> names \<noteq> [] \<Longrightarrow> last names \<noteq> ''.'' \<Longrightarrow> last names \<noteq> ''..''
   \<Longrightarrow> cs \<noteq> [] \<and> is_dir_at fs (butlast cs)"
proof (induction names arbitrary: cur)
  case Nil
  then show ?case by simp
next
  case (Cons c names)
  show ?case
  proof (cases "names = []")
    case True
    with Cons.prems show ?thesis
      by (auto simp: is_dir_at_def split: sum.splits node.splits)
  next
    case False
    let ?next = "if c = ''.'' then cur else if c = ''..'' then butlast cur else cur @ [c]"
    from Cons.prems(1) have "descend fs ?next names = Inr cs"
      by (auto split: sum.splits node.splits)
    from Cons.IH [OF this False] Cons.prems(3,4) False show ?thesis by simp
  qed
qed

lemma parse_mode_w: "parse_mode ''w'' = Inr (CHR ''w'', False, False)"
  by (simp add: parse_mode_def)

lemma writable_resolves:
  "writable e fs p mode data \<Longrightarrow> \<exists>cs. os_resolve e fs p = Inr cs"
  by (auto simp: writable_def split: sum.splits)

lemma write_file_w:
  assumes "writable e fs p ''w'' d" "os_resolve e fs p = Inr cs"
  shows "write_file e fs p ''w'' d = (None, put fs cs (File d))"
proof -
  from assms have f: "open_fault e p ''w'' = None" "write_fault e p d = None"
    and pl: "plain_name p" and nd: "\<not> is_dir_at fs cs"
    by (auto simp: writable_def is_dir_at_def split: sum.splits node.splits)
  from assms(2) have dd: "descend fs (start_dir e p) (path_names p) = Inr cs"
    by (auto simp: os_resolve_def split: if_splits sum.splits)
  from descend_parent [OF dd] pl have ne: "cs \<noteq> []" by (simp add: plain_name_def)
  from pl have t: "\<not> trailing_slash p" "\<not> ends_in_dots p"
    by (auto simp: plain_name_def ends_in_dots_def)
  have "\<exists>old. open_target e fs p CHR ''w'' = Inr (cs, old)"
    using assms(2) ne t nd
    by (auto simp: open_target_def is_dir_at_def split: sum.splits node.splits)
  then obtain old where "open_target e fs p CHR ''w'' = Inr (cs, old)" by blast
  then show ?thesis
    unfolding write_file_def parse_mode_w using f
    by (simp add: written_def opened_def split: option.splits)
qed

lemma written_stat:
  assumes "writable e fs p mode data" "os_resolve e fs p = Inr cs"
  shows "os_stat e (put fs cs (File d)) p = Inr (File d)"
proof -
  from assms have pl: "plain_name p" and nd: "\<not> is_dir_at fs cs"
    by (auto simp: writable_def is_dir_at_def split: sum.splits node.splits)
  from assms(2) have ok: "p \<noteq> []" "CHR 0x00 \<notin> set p"
    and dd: "descend fs (start_dir e p) (path_names p) = Inr cs"
    by (auto simp: os_resolve_def split: if_splits sum.splits)
  from descend_parent [OF dd] pl have ne: "cs \<noteq> []" and par: "is_dir_at fs (butlast cs)"
    by (simp_all add: plain_name_def)
  from par obtain es where "walk fs (butlast cs) = Inr (Dir es)"
    by (auto simp: is_dir_at_def split: sum.splits node.splits)
  from walk_put_same [OF ne this] have w: "walk (put fs cs (File d)) cs = Inr (File d)" .
  have "descend (put fs cs (File d)) (start_dir e p) (path_names p) = Inr cs"
    by (rule descend_mono [OF put_file_keeps_dirs [OF _ nd] dd])
  then have "os_resolve e (put fs cs (File d)) p = Inr cs" using ok by (simp add: os_resolve_def)
  then show ?thesis using w pl by (simp add: os_stat_def plain_name_def)
qed

lemma file_facts:
  assumes "os_lookup e fs p = Some (File c)"
  shows "path_exists e fs p" "\<not> path_isdir e fs p" "os_stat e fs p = Inr (File c)"
  using assms
  by (auto simp: path_exists_def path_isdir_def os_lookup_def split: sum.splits)

lemma read_text_file:
  "os_stat e fs p = Inr (File c) \<Longrightarrow> readable e p \<Longrightarrow> read_text e fs p = Inr (univ_nl c)"
  by (simp add: read_text_def read_file_def readable_def)

lemma run_dispatch:
  assumes "heredoc_mode st = None" "input_mode st = None"
    and "py_strip line = raw" "raw \<noteq> []" "shlex_split raw = Inr (cmd # args)"
  shows "run e st fs line (Some cwd) =
           (Inr (fst (dispatch e st fs cmd args cwd)), snd (dispatch e st fs cmd args cwd))"
  using assms by (simp add: run_def run_line_def split: prod.splits)

section \<open>echo into a file, then cat\<close>

lemma strip_echo: \<open>py_strip ''echo "a b" > f.txt'' = ''echo "a b" > f.txt''\<close>
  by code_simp

lemma lex_echo: \<open>shlex_split ''echo "a b" > f.txt'' = Inr [''echo'', ''a b'', ''>'', ''f.txt'']\<close>
  by code_simp

lemma strip_cat: "py_strip ''cat f.txt'' = ''cat f.txt''"
  by code_simp

lemma lex_cat: "shlex_split ''cat f.txt'' = Inr [''cat'', ''f.txt'']"
  by code_simp

lemma univ_nl_a_b: "univ_nl ''a b\<newline>'' = ''a b\<newline>''"
  by code_simp

lemma echo_overwrite:
  assumes "writable e fs (path_resolve ''f.txt'' cwd) ''w'' ''a b\<newline>''"
    and "os_resolve e fs (path_resolve ''f.txt'' cwd) = Inr cs"
  shows "dispatch e st fs ''echo'' [''a b'', ''>'', ''f.txt''] cwd =
           (([], [], Some cwd, 0), st, put fs cs (File ''a b\<newline>''))"
  by (simp add: dispatch_def verb_def echo_def echo_redirect_def py_nth_def
        write_file_w [OF assms])

lemma cat_plain_file:
  assumes "os_stat e fs (path_resolve f cwd) = Inr (File c)" "readable e (path_resolve f cwd)"
    and "\<not> startswith (univ_nl c) ''HEREDOC_MODE:''" "\<not> startswith (univ_nl c) ''INPUT_MODE:''"
    and "f \<noteq> ''<<''" "f \<noteq> ''>>''" "f \<noteq> ''>''"
  shows "dispatch e st fs ''cat'' [f] cwd = ((univ_nl c, [], Some cwd, 0), st, fs)"
proof -
  from assms(1) have "path_exists e fs (path_resolve f cwd)" "\<not> path_isdir e fs (path_resolve f cwd)"
    by (simp_all add: path_exists_def path_isdir_def os_lookup_def)
  then show ?thesis
    using assms(3-) read_text_file [OF assms(1,2)]
    by (simp add: dispatch_def verb_def cat_def cat_session_def)
qed

text \<open>
  Claim C6. With no session active, \<open>f.txt\<close> writable in the working directory (its
  directory exists, \<open>f.txt\<close> is not a directory, and the host refuses neither the opening
  for writing nor the write) and readable (the host does not refuse the opening for
  reading), \<open>echo "a b" > f.txt\<close> returns exit code 0 with empty output, and \<open>cat f.txt\<close> on
  the file system it leaves returns exactly \<open>a b\<close> and a newline on standard output, with
  exit code 0. Neither invocation changes the interpreter's state.
\<close>

theorem echo_cat_round_trip:
  assumes "heredoc_mode st = None" "input_mode st = None"
    and "writable e fs (path_resolve ''f.txt'' cwd) ''w'' ''a b\<newline>''"
    and "readable e (path_resolve ''f.txt'' cwd)"
  shows \<open>\<exists>fs1. run e st fs ''echo "a b" > f.txt'' (Some cwd) = (Inr ([], [], Some cwd, 0), st, fs1)
           \<and> run e st fs1 ''cat f.txt'' (Some cwd) = (Inr (''a b\<newline>'', [], Some cwd, 0), st, fs1)\<close>
proof -
  from writable_resolves [OF assms(3)] obtain cs
    where cs: "os_resolve e fs (path_resolve ''f.txt'' cwd) = Inr cs" by blast
  let ?fs1 = "put fs cs (File ''a b\<newline>'')"
  have 1: \<open>run e st fs ''echo "a b" > f.txt'' (Some cwd) = (Inr ([], [], Some cwd, 0), st, ?fs1)\<close>
    using run_dispatch [OF assms(1,2) strip_echo _ lex_echo, of e fs cwd]
          echo_overwrite [OF assms(3) cs, of st]
    by simp
  have look: "os_stat e ?fs1 (path_resolve ''f.txt'' cwd) = Inr (File ''a b\<newline>'')"
    by (rule written_stat [OF assms(3) cs])
  have 2: "run e st ?fs1 ''cat f.txt'' (Some cwd) = (Inr (''a b\<newline>'', [], Some cwd, 0), st, ?fs1)"
    using run_dispatch [OF assms(1,2) strip_cat _ lex_cat, of e ?fs1 cwd]
          cat_plain_file [OF look assms(4), of st]
    by (simp add: startswith_def univ_nl_a_b)
  from 1 2 show ?thesis by blast
qed

theorem echo_cat_round_trip_witness:
  \<open>heredoc_mode init_interp = None \<and> input_mode init_interp = None \<and>
   writable example_env example_fs (path_resolve ''f.txt'' ''/tmp'') ''w'' ''a b\<newline>'' \<and>
   readable example_env (path_resolve ''f.txt'' ''/tmp'') \<and>
   (\<exists>fs1. run example_env init_interp example_fs ''echo "a b" > f.txt'' (Some ''/tmp'')
            = (Inr ([], [], Some ''/tmp'', 0), init_interp, fs1)
        \<and> run example_env init_interp fs1 ''cat f.txt'' (Some ''/tmp'')
            = (Inr (''a b\<newline>'', [], Some ''/tmp'', 0), init_interp, fs1))\<close>
proof -
  have h: "heredoc_mode init_interp = None" and i: "input_mode init_interp = None"
    by (simp_all add: init_interp_def)
  have w: "writable example_env example_fs (path_resolve ''f.txt'' ''/tmp'') ''w'' ''a b\<newline>''"
    by code_simp
  have r: "readable example_env (path_resolve ''f.txt'' ''/tmp'')" by code_simp
  from echo_cat_round_trip [OF h i w r] h i w r show ?thesis by blast
qed

section \<open>grep\<close>













section \<open>rm on a directory\<close>

lemma isdir_facts:
  assumes "path_isdir e fs p" "os_resolve e fs p = Inr cs"
  shows "path_exists e fs p" "\<exists>es. walk fs cs = Inr (Dir es)"
  using assms
  by (auto simp: path_isdir_def path_exists_def os_lookup_def os_stat_def
           split: sum.splits node.splits option.splits if_splits)

lemma rmtree_dir:
  assumes "walk fs cs = Inr (Dir es)" "os_resolve e fs p = Inr cs" "cs \<noteq> []"
    and "\<not> ends_in_dots p" "rmtree_fault e fs p = None"
  shows "shutil_rmtree e fs p = (None, del fs cs)"
  using assms by (simp add: shutil_rmtree_def)

text \<open>
  Claim C8. Let \<open>p\<close> name a directory (empty or not) other than the root, not through a
  last component \<open>.\<close> or \<open>..\<close>, and let \<open>cs\<close> be its canonical path. \<open>rm p\<close> returns exit code
  1 with the message \<open>Is a directory\<close> and leaves the file system as it is. With a recursive
  flag \<open>f\<close> (\<open>-r\<close>, \<open>-rf\<close> or \<open>-fr\<close>) before it, and a host on which the removal of the tree
  does not fail, \<open>rm f p\<close> returns exit code 0 with empty output; afterwards nothing is
  found at \<open>cs\<close> or below it, and every path that is neither below \<open>cs\<close> nor an ancestor
  of it leads where it led before.
\<close>

theorem rm_directory:
  assumes "path_isdir e fs (path_resolve p cwd)" "os_resolve e fs (path_resolve p cwd) = Inr cs"
    and "cs \<noteq> []" "\<not> ends_in_dots (path_resolve p cwd)"
    and "rmtree_fault e fs (path_resolve p cwd) = None"
    and "\<not> rm_flag p" "rm_flag f"
  shows "dispatch e st fs ''rm'' [p] cwd =
           (([], ''rm: cannot remove '' @ [CHR 0x27] @ p @ [CHR 0x27] @ '': Is a directory\<newline>'',
             Some cwd, 1), st, fs)
         \<and> dispatch e st fs ''rm'' [f, p] cwd = (([], [], Some cwd, 0), st, del fs cs)
         \<and> (\<forall>ds. lookup (del fs cs) (cs @ ds) = None)
         \<and> (\<forall>qs. take (length cs) qs \<noteq> cs \<and> take (length qs) cs \<noteq> qs
                \<longrightarrow> walk (del fs cs) qs = walk fs qs)"
proof -
  note d = isdir_facts [OF assms(1,2)]
  from d(2) obtain es where es: "walk fs cs = Inr (Dir es)" by blast
  have 1: "dispatch e st fs ''rm'' [p] cwd =
           (([], ''rm: cannot remove '' @ [CHR 0x27] @ p @ [CHR 0x27] @ '': Is a directory\<newline>'',
             Some cwd, 1), st, fs)"
    using d(1) assms(1,6) by (simp add: dispatch_def verb_def rm_def)
  have 2: "dispatch e st fs ''rm'' [f, p] cwd = (([], [], Some cwd, 0), st, del fs cs)"
    using d(1) assms(1,6,7) rmtree_dir [OF es assms(2-5)]
    by (simp add: dispatch_def verb_def rm_def)
  have 3: "lookup (del fs cs) (cs @ ds) = None" for ds
    using walk_del_below [OF assms(3) es, of ds] by (simp add: lookup_def)
  have 4: "walk (del fs cs) qs = walk fs qs"
    if "take (length cs) qs \<noteq> cs" "take (length qs) cs \<noteq> qs" for qs
    using that by (rule walk_del_other)
  from 1 2 3 4 show ?thesis by blast
qed

theorem rm_directory_witness:
  "path_isdir example_env example_fs (path_resolve ''d'' ''/tmp'') \<and>
   os_resolve example_env example_fs (path_resolve ''d'' ''/tmp'') = Inr [''tmp'', ''d''] \<and>
   lookup example_fs [''tmp'', ''d'', ''x''] = Some (File ''1'') \<and>
   dispatch example_env init_interp example_fs ''rm'' [''d''] ''/tmp'' =
     (([], ''rm: cannot remove '' @ [CHR 0x27] @ ''d'' @ [CHR 0x27] @ '': Is a directory\<newline>'',
       Some ''/tmp'', 1), init_interp, example_fs) \<and>
   dispatch example_env init_interp example_fs ''rm'' [''-r'', ''d''] ''/tmp'' =
     (([], [], Some ''/tmp'', 0), init_interp, del example_fs [''tmp'', ''d'']) \<and>
   lookup (del example_fs [''tmp'', ''d'']) ([''tmp'', ''d''] @ [''x'']) = None \<and>
   walk (del example_fs [''tmp'', ''d'']) [''tmp'', ''log.txt'']
     = walk example_fs [''tmp'', ''log.txt'']"
proof -
  have a: "path_isdir example_env example_fs (path_resolve ''d'' ''/tmp'')" by code_simp
  have b: "os_resolve example_env example_fs (path_resolve ''d'' ''/tmp'') = Inr [''tmp'', ''d'']"
    by code_simp
  have c: "\<not> ends_in_dots (path_resolve ''d'' ''/tmp'')" by code_simp
  have d: "rmtree_fault example_env example_fs (path_resolve ''d'' ''/tmp'') = None"
    by (simp add: example_env_def)
  have f: "\<not> rm_flag ''d''" "rm_flag ''-r''" by (simp_all add: rm_flag_def)
  have x: "lookup example_fs [''tmp'', ''d'', ''x''] = Some (File ''1'')" by code_simp
  have q: "take (length [''tmp'', ''d'']) [''tmp'', ''log.txt''] \<noteq> [''tmp'', ''d'']
           \<and> take (length [''tmp'', ''log.txt'']) [''tmp'', ''d''] \<noteq> [''tmp'', ''log.txt'']"
    by simp
  from rm_directory [OF a b _ c d f, of init_interp] a b x q show ?thesis by blast
qed

section \<open>A heredoc session, start to end\<close>

text \<open>
  In \<open>/tmp\<close> the session of \<open>cat >> log.txt << EOF\<close> with the lines \<open>x\<close>, \<open>y\<close> and \<open>EOF\<close> appends
  \<open>x\<close>, \<open>y\<close> (a newline after each) to the content \<open>old\<close> of \<open>log.txt\<close> and ends: the line
  \<open>pwd\<close> that follows is dispatched.
\<close>

lemma heredoc_open_tmp:
  "run example_env init_interp example_fs ''cat >> log.txt << EOF'' (Some ''/tmp'')
     = (Inr (''> '', [], Some ''/tmp'', 0),
        \<lparr>heredoc_mode = Some \<lparr>hd_mode = ''a'', hd_filepath = ''/tmp/log.txt'',
                              hd_delimiter = ''EOF'', hd_lines = []\<rparr>,
         input_mode = None\<rparr>, example_fs)"
  by code_simp

lemma heredoc_close_tmp:
  "run example_env
     \<lparr>heredoc_mode = Some \<lparr>hd_mode = ''a'', hd_filepath = ''/tmp/log.txt'',
                           hd_delimiter = ''EOF'', hd_lines = [''x'', ''y'']\<rparr>,
      input_mode = None\<rparr> example_fs ''EOF'' (Some ''/tmp'')
     = (Inr ([], [], Some ''/tmp'', 0), init_interp,
        put example_fs [''tmp'', ''log.txt''] (File ''old\<newline>x\<newline>y\<newline>''))"
  by code_simp

lemma after_heredoc_tmp:
  "fst (run example_env init_interp
          (put example_fs [''tmp'', ''log.txt''] (File ''old\<newline>x\<newline>y\<newline>''))
          ''pwd'' (Some ''/tmp''))
     = Inr (''/tmp\<newline>'', [], Some ''/tmp'', 0)"
  by code_simp

text \<open>
  The raw-input session keeps a colon of the path: its marker is cut at the first two
  colons only.
\<close>

lemma input_session_colon:
  "run example_env init_interp example_fs ''cat >> log.txt'' (Some ''/tmp/a:b'')
     = (Inr (''> '', [], Some ''/tmp/a:b'', 0),
        \<lparr>heredoc_mode = None,
         input_mode = Some \<lparr>in_mode = ''a'', in_filepath = ''/tmp/a:b/log.txt'',
                             in_lines = []\<rparr>\<rparr>, example_fs)"
  by code_simp

lemma colon_step:
  "run example_env (colon_session buffered) fs line (Some ''/tmp/a:b'') =
     (if py_strip line = ''b/log.txt:EOF''
      then (case flush_session example_env fs ''/tmp/a'' ''a'' buffered ''/tmp/a:b'' of
              (r, fs') \<Rightarrow> (Inr r, (colon_session buffered)\<lparr>heredoc_mode := None\<rparr>, fs'))
      else (Inr (''> '', [], Some ''/tmp/a:b'', 0), colon_session (buffered @ [py_strip line]), fs))"
  by (simp add: run_def run_line_def colon_session_def)

lemma strip_x: "py_strip ''x'' = ''x''"
  by code_simp

lemma strip_y: "py_strip ''y'' = ''y''"
  by code_simp

lemma strip_EOF: "py_strip ''EOF'' = ''EOF''"
  by code_simp

text \<open>
  Claim C3, at the working directory \<open>/tmp/a:b\<close>. The session marker of the heredoc is cut
  at its first three colons, so the colon of the directory name ends the target path:
  the session holds the target \<open>/tmp/a\<close> and the terminator \<open>b/log.txt:EOF\<close>. The lines
  \<open>x\<close>, \<open>y\<close> and \<open>EOF\<close> are all buffered, each answered by the continuation prompt; after
  \<open>EOF\<close> the session is still open, the file system is the one before the command, and
  \<open>log.txt\<close> is not written.
\<close>

theorem heredoc_colon_in_path:
  "cli_loop example_env init_interp example_fs ''/tmp/a:b''
     [''cat >> log.txt << EOF'', ''x'', ''y'', ''EOF'']
   = ([Inr (''> '', [], Some ''/tmp/a:b'', 0), Inr (''> '', [], Some ''/tmp/a:b'', 0),
       Inr (''> '', [], Some ''/tmp/a:b'', 0), Inr (''> '', [], Some ''/tmp/a:b'', 0)],
      colon_session [''x'', ''y'', ''EOF''], example_fs, ''/tmp/a:b'')"
proof -
  have 0: "run example_env init_interp example_fs ''cat >> log.txt << EOF'' (Some ''/tmp/a:b'')
             = (Inr (''> '', [], Some ''/tmp/a:b'', 0), colon_session [], example_fs)"
    by code_simp
  show ?thesis
    by (simp add: 0 colon_step strip_x strip_y strip_EOF slot_def)
qed

section \<open>The working-directory slot\<close>

subsection \<open>A stripped line starts a token\<close>

lemma lex_committed:
  "committed s tok quoted esc \<Longrightarrow> lex s tok quoted esc cs \<noteq> Inr []"
proof (induction s tok quoted esc cs rule: lex.induct)
  case (7 tok quoted esc c cs)
  then show ?case
    by (cases esc) (auto simp: committed_def split: if_splits)
qed (auto simp: committed_def emit_def split: sum.splits if_splits)

lemma shlex_split_nonempty:
  "\<not> lex_whitespace c \<Longrightarrow> shlex_split (c # cs) \<noteq> Inr []"
  using lex_committed [of LEscape "[]" False LWord cs]
        lex_committed [of "LQuote c" "[]" False LSpace cs]
        lex_committed [of LWord "[c]" False LSpace cs]
  by (simp add: shlex_split_def committed_def)

lemma lstrip_no_prefix: "ws_prefix (lstrip s) = None"
proof (induction s rule: lstrip.induct)
  case (1 s)
  show ?case
  proof (cases "ws_prefix s")
    case None
    then show ?thesis by (simp add: lstrip.simps [of s])
  next
    case (Some w)
    with 1 show ?thesis by (simp add: lstrip.simps [of s])
  qed
qed

lemma rstrip_take: "\<exists>n. rstrip s = take n s"
proof (induction s rule: rstrip.induct)
  case (1 s)
  show ?case
  proof (cases "ws_suffix s")
    case None
    then have "rstrip s = take (length s) s" by (simp add: rstrip.simps [of s])
    then show ?thesis by blast
  next
    case (Some w)
    with 1 obtain n where "rstrip (take (length s - length w) s) = take n (take (length s - length w) s)"
      by blast
    with Some have "rstrip s = take (min n (length s - length w)) s"
      by (simp add: rstrip.simps [of s])
    then show ?thesis by blast
  qed
qed

lemma no_prefix_hd:
  assumes "ws_prefix (c # r) = None"
  shows "\<not> lex_whitespace c"
proof
  assume "lex_whitespace c"
  then have "[c] \<in> set ws_seqs" by (auto simp: lex_whitespace_def ws_seqs_def)
  moreover have "startswith (c # r) [c]" by (simp add: startswith_def)
  ultimately show False using assms by (auto simp: ws_prefix_def find_None_iff)
qed

lemma py_strip_hd: "py_strip s = c # r \<Longrightarrow> \<not> lex_whitespace c"
proof -
  assume a: "py_strip s = c # r"
  obtain n where n: "rstrip (lstrip s) = take n (lstrip s)" using rstrip_take by blast
  with a have "take n (lstrip s) = c # r" by (simp add: py_strip_def)
  then obtain r' where "lstrip s = c # r'" by (cases "lstrip s"; cases n) auto
  with lstrip_no_prefix [of s] have "ws_prefix (c # r') = None" by simp
  then show ?thesis by (rule no_prefix_hd)
qed

lemma stripped_tokens:
  "py_strip s \<noteq> [] \<Longrightarrow> shlex_split (py_strip s) \<noteq> Inr []"
proof -
  assume "py_strip s \<noteq> []"
  then obtain c r where cr: "py_strip s = c # r" by (cases "py_strip s") auto
  from py_strip_hd [OF cr] have "shlex_split (c # r) \<noteq> Inr []" by (rule shlex_split_nonempty)
  then show ?thesis by (simp add: cr)
qed

subsection \<open>The loops of the handlers\<close>

lemma keeps_simps:
  "keeps_cwd cwd (Inl x, fs)"
  "keeps_cwd cwd (Inr (out, err, Some cwd, code), fs)"
  "keeps_cwd cwd (Inr (out, err, None, code), fs)"
  by (simp_all add: keeps_cwd_def slot_def)

lemma loop_simps:
  "loop_keeps cwd (Returned (out, err, Some cwd, code))"
  "loop_keeps cwd (Raised x)"
  "loop_keeps cwd (Done acc)"
  by (simp_all add: loop_keeps_def slot_def)

lemma loop_keeps_Returned: "loop_keeps cwd (Returned r) \<Longrightarrow> keeps_cwd cwd (Inr r, fs)"
  by (simp add: loop_keeps_def keeps_cwd_def)

lemma mkdir_loop_keeps: "keeps_cwd cwd (mkdir_loop e cwd as fs)"
  by (induction as arbitrary: fs) (simp_all add: keeps_simps split: sum.splits)

lemma rm_loop_keeps: "keeps_cwd cwd (rm_loop e cwd recursive as fs)"
  by (induction as arbitrary: fs recursive)
     (simp_all add: keeps_simps Let_def split: sum.splits prod.splits option.splits)

lemma rmdir_loop_keeps: "keeps_cwd cwd (rmdir_loop e cwd as fs)"
  by (induction as arbitrary: fs) (simp_all add: keeps_simps Let_def split: sum.splits)

lemma touch_loop_keeps: "keeps_cwd cwd (touch_loop e cwd as fs)"
  by (induction as arbitrary: fs)
     (simp_all add: keeps_simps Let_def split: sum.splits prod.splits option.splits)

lemma mv_loop_keeps: "keeps_cwd cwd (mv_loop e cwd dest as fs)"
  by (induction as arbitrary: fs) (simp_all add: keeps_simps split: sum.splits)

lemma cp_loop_keeps: "keeps_cwd cwd (cp_loop e cwd recursive dest as fs)"
  by (induction as arbitrary: fs recursive) (simp_all add: keeps_simps split: sum.splits)

lemma cat_read_keeps: "loop_keeps cwd (cat_read e cwd fs as acc)"
  by (induction as arbitrary: acc) (simp_all add: loop_simps Let_def split: sum.splits)

lemma wc_loop_keeps: "loop_keeps cwd (wc_loop e cwd fs as acc)"
  by (induction as arbitrary: acc) (simp_all add: loop_simps Let_def split: sum.splits)

lemma sum_loop_keeps: "loop_keeps cwd (sum_loop e name digest cwd fs as acc)"
  by (induction as arbitrary: acc) (simp_all add: loop_simps Let_def split: sum.splits)

subsection \<open>The handlers\<close>

lemma ls_keeps: "keeps_cwd cwd (ls e args cwd fs)"
  by (simp add: ls_def keeps_simps Let_def split: prod.splits sum.splits)

lemma mkdir_keeps: "keeps_cwd cwd (mkdir e args cwd fs)"
  by (simp add: mkdir_def keeps_simps mkdir_loop_keeps)

lemma rm_keeps: "keeps_cwd cwd (rm e args cwd fs)"
  by (simp add: rm_def Let_def keeps_simps rm_loop_keeps)

lemma rmdir_keeps: "keeps_cwd cwd (rmdir e args cwd fs)"
  by (simp add: rmdir_def keeps_simps rmdir_loop_keeps)

lemma touch_keeps: "keeps_cwd cwd (touch e args cwd fs)"
  by (simp add: touch_def keeps_simps touch_loop_keeps)

lemma mv_keeps: "keeps_cwd cwd (mv e args cwd fs)"
  by (simp add: mv_def Let_def keeps_simps mv_loop_keeps)

lemma cp_keeps: "keeps_cwd cwd (cp e args cwd fs)"
  by (simp add: cp_def Let_def keeps_simps cp_loop_keeps)

lemma echo_redirect_keeps: "keeps_cwd cwd (echo_redirect e args cwd fs tok mode)"
  by (simp add: echo_redirect_def keeps_simps Let_def
           split: sum.splits prod.splits option.splits)

lemma echo_keeps: "keeps_cwd cwd (echo e args cwd fs)"
  by (simp add: echo_def keeps_simps echo_redirect_keeps)

lemma cat_heredoc_keeps: "keeps_cwd cwd (Inr (cat_heredoc args cwd), fs)"
  by (simp add: cat_heredoc_def keeps_simps Let_def split: option.splits prod.splits sum.splits)

lemma cat_redirect_keeps: "keeps_cwd cwd (cat_redirect e args cwd fs tok mode what)"
  using cat_read_keeps [of cwd e fs "take (index_of tok args) args" "[]"]
  by (cases "cat_read e cwd fs (take (index_of tok args) args) []")
     (simp_all add: cat_redirect_def keeps_simps loop_keeps_Returned Let_def
           split: sum.splits prod.splits option.splits)

lemma cat_keeps: "keeps_cwd cwd (cat e args cwd fs)"
  using cat_read_keeps [of cwd e fs args "[]"]
  by (cases "cat_read e cwd fs args []")
     (simp_all add: cat_def keeps_simps loop_keeps_Returned cat_heredoc_keeps
        cat_redirect_keeps)

lemma metrics_keep:
  "keeps_cwd cwd (cpu e fs)" "keeps_cwd cwd (mem e fs)" "keeps_cwd cwd (ps e args fs)"
  "keeps_cwd cwd (df e args cwd fs)" "keeps_cwd cwd (uptime e fs)"
  by (simp_all add: cpu_def mem_def ps_def df_def uptime_def keeps_simps Let_def
           split: sum.splits)

lemma head_keeps: "keeps_cwd cwd (head e args cwd fs)"
  by (simp add: head_def keeps_simps Let_def split: sum.splits prod.splits option.splits)

lemma tail_keeps: "keeps_cwd cwd (tail e args cwd fs)"
  by (simp add: tail_def keeps_simps Let_def split: sum.splits prod.splits option.splits)

lemma wc_keeps: "keeps_cwd cwd (wc e args cwd fs)"
  using wc_loop_keeps [of cwd e fs args "[]"]
  by (cases "wc_loop e cwd fs args []") (simp_all add: wc_def keeps_simps loop_keeps_Returned)

lemma grep_keeps: "keeps_cwd cwd (grep e args cwd fs)"
  by (simp add: grep_def keeps_simps Let_def split: sum.splits)

lemma find_keeps: "keeps_cwd cwd (find_cmd e args cwd fs)"
  by (simp add: find_cmd_def keeps_simps Let_def split: prod.splits)

lemma tree_keeps: "keeps_cwd cwd (tree e args cwd fs)"
  by (simp add: tree_def keeps_simps Let_def split: sum.splits option.splits node.splits)

lemma du_keeps: "keeps_cwd cwd (du e args cwd fs)"
  by (simp add: du_def keeps_simps Let_def split: sum.splits)

lemma stat_keeps: "keeps_cwd cwd (stat e args cwd fs)"
  by (simp add: stat_def keeps_simps Let_def split: sum.splits)

lemma chmod_keeps: "keeps_cwd cwd (chmod e args cwd fs)"
  by (simp add: chmod_def keeps_simps Let_def split: sum.splits)

lemma small_keep:
  "keeps_cwd cwd (date e args cwd fs)" "keeps_cwd cwd (whoami e cwd fs)"
  "keeps_cwd cwd (hostname e cwd fs)" "keeps_cwd cwd (clear cwd fs)"
  "keeps_cwd cwd (which args cwd fs)"
  by (simp_all add: date_def whoami_def hostname_def clear_def which_def keeps_simps
           Let_def split: sum.splits)

lemma checksum_keeps: "keeps_cwd cwd (checksum e name digest args cwd fs)"
  using sum_loop_keeps [of cwd e name digest fs args "[]"]
  by (cases "sum_loop e name digest cwd fs args []")
     (simp_all add: checksum_def keeps_simps loop_keeps_Returned)

lemma verb_keeps: "cmd \<noteq> ''cd'' \<Longrightarrow> keeps_cwd cwd (verb e cmd args cwd fs)"
  unfolding verb_def
  by (simp add: ls_keeps mkdir_keeps rm_keeps rmdir_keeps cat_keeps touch_keeps mv_keeps
        cp_keeps echo_keeps metrics_keep head_keeps tail_keeps wc_keeps grep_keeps find_keeps
        tree_keeps du_keeps stat_keeps chmod_keeps small_keep checksum_keeps md5sum_def
        sha256sum_def keeps_simps)

lemma cat_session_slot:
  "cat_session st cwd r = (Inr r', st') \<Longrightarrow> slot r' = Some cwd \<or> r' = r"
  by (auto simp: cat_session_def slot_def Let_def split: if_splits)

lemma dispatch_keeps:
  assumes "cmd \<noteq> ''cd''"
  shows "slot (fst (dispatch e st fs cmd args cwd)) = Some cwd
         \<or> slot (fst (dispatch e st fs cmd args cwd)) = None"
proof -
  obtain out fs' where v: "verb e cmd args cwd fs = (out, fs')" by (cases "verb e cmd args cwd fs")
  from verb_keeps [OF assms, of cwd e args fs] v
  have k: "case out of Inl x \<Rightarrow> True | Inr r \<Rightarrow> slot r = Some cwd \<or> slot r = None"
    by (simp add: keeps_cwd_def)
  show ?thesis
  proof (cases out)
    case (Inl x)
    then show ?thesis using v by (simp add: dispatch_def slot_def)
  next
    case (Inr r)
    show ?thesis
    proof (cases "cmd = ''cat''")
      case False
      then show ?thesis using v Inr k by (simp add: dispatch_def)
    next
      case True
      obtain z st' where c: "cat_session st cwd r = (z, st')" by (cases "cat_session st cwd r")
      show ?thesis
      proof (cases z)
        case (Inl x)
        then show ?thesis using v \<open>out = Inr r\<close> True c by (simp add: dispatch_def slot_def)
      next
        case r': (Inr r')
        with cat_session_slot c have "slot r' = Some cwd \<or> r' = r" by blast
        then show ?thesis using v Inr True c r' k by (auto simp: dispatch_def)
      qed
    qed
  qed
qed

lemma dispatch_cd:
  "slot (fst (dispatch e st fs ''cd'' args cwd)) = Some cwd
   \<or> (path_isdir e fs (if args = [] then home_dir e else path_resolve (hd args) cwd)
      \<and> fst (dispatch e st fs ''cd'' args cwd)
          = ([], [], Some (if args = [] then home_dir e else path_resolve (hd args) cwd), 0))"
  by (auto simp: dispatch_def verb_def cd_def slot_def Let_def split: sum.splits)

text \<open>
  Claim C10. With no session active, every invocation of \<open>run\<close> with a working directory
  returns a result (no exception leaves it), and the working-directory slot of the result
  is the working directory passed in or the sentinel \<open>None\<close>, unless the line is a \<open>cd\<close>
  whose target (the home directory without an argument, the resolved first argument
  otherwise) exists and is a directory: then the result is that target with empty output
  and exit code 0.
\<close>

theorem cwd_slot_frame:
  assumes "heredoc_mode st = None" "input_mode st = None"
  shows "\<exists>r. fst (run e st fs line (Some cwd)) = Inr r \<and>
           (slot r = Some cwd \<or> slot r = None \<or>
            (\<exists>args. shlex_split (py_strip line) = Inr (''cd'' # args)
               \<and> path_isdir e fs (if args = [] then home_dir e else path_resolve (hd args) cwd)
               \<and> r = ([], [], Some (if args = [] then home_dir e
                                      else path_resolve (hd args) cwd), 0)))"
proof -
  let ?raw = "py_strip line"
  have r: "run e st fs line (Some cwd) = run_line e st fs ?raw cwd" by (simp add: run_def)
  show ?thesis
  proof (cases "?raw = []")
    case True
    then show ?thesis using assms by (simp add: r run_line_def slot_def)
  next
    case False
    show ?thesis
    proof (cases "shlex_split ?raw")
      case (Inl x)
      then show ?thesis using assms False by (simp add: r run_line_def slot_def)
    next
      case (Inr parts)
      with stripped_tokens [OF False] obtain cmd args where p: "parts = cmd # args"
        by (cases parts) auto
      have d: "fst (run e st fs line (Some cwd)) = Inr (fst (dispatch e st fs cmd args cwd))"
        using assms False Inr p by (simp add: r run_line_def split: prod.splits)
      show ?thesis
      proof (cases "cmd = ''cd''")
        case True
        from dispatch_cd [of e st fs args cwd] consider
          "slot (fst (dispatch e st fs ''cd'' args cwd)) = Some cwd"
          | "path_isdir e fs (if args = [] then home_dir e else path_resolve (hd args) cwd)
             \<and> fst (dispatch e st fs ''cd'' args cwd)
                 = ([], [], Some (if args = [] then home_dir e else path_resolve (hd args) cwd), 0)"
          by blast
        then show ?thesis
        proof cases
          case 1
          then show ?thesis using d True by simp
        next
          case 2
          have "shlex_split ?raw = Inr (''cd'' # args)" using Inr p True by simp
          with 2 d True show ?thesis by blast
        qed
      next
        case False
        from dispatch_keeps [OF False, of e st fs args cwd] d show ?thesis by auto
      qed
    qed
  qed
qed

theorem cwd_slot_frame_witness:
  "heredoc_mode init_interp = None \<and> input_mode init_interp = None \<and>
   fst (run example_env init_interp example_fs ''cd d'' (Some ''/tmp''))
     = Inr ([], [], Some ''/tmp/d'', 0) \<and>
   fst (run example_env init_interp example_fs ''cd log.txt'' (Some ''/tmp''))
     = Inr ([], ''cd: log.txt: Not a directory\<newline>'', Some ''/tmp'', 1) \<and>
   (\<exists>r. fst (run example_env init_interp example_fs ''cd d'' (Some ''/tmp'')) = Inr r \<and>
        (slot r = Some ''/tmp'' \<or> slot r = None \<or>
         (\<exists>args. shlex_split (py_strip ''cd d'') = Inr (''cd'' # args)
            \<and> path_isdir example_env example_fs
                 (if args = [] then home_dir example_env else path_resolve (hd args) ''/tmp'')
            \<and> r = ([], [], Some (if args = [] then home_dir example_env
                                   else path_resolve (hd args) ''/tmp''), 0))))"
proof -
  have h: "heredoc_mode init_interp = None" and i: "input_mode init_interp = None"
    by (simp_all add: init_interp_def)
  have a: "fst (run example_env init_interp example_fs ''cd d'' (Some ''/tmp''))
             = Inr ([], [], Some ''/tmp/d'', 0)"
    by code_simp
  have b: "fst (run example_env init_interp example_fs ''cd log.txt'' (Some ''/tmp''))
             = Inr ([], ''cd: log.txt: Not a directory\<newline>'', Some ''/tmp'', 1)"
    by code_simp
  from cwd_slot_frame [OF h i, of example_env example_fs "''cd d''" "''/tmp''"] h i a b
  show ?thesis by blast
qed

end
